theory Spec2Isabelle
  imports
    Complex_Main
    "HOL-Library.Char_ord"
    "HOL-Library.List_Lexorder"
    "HOL-Library.Product_Lexorder"
begin

section \<open>Data model of the goal engine (backend/models/Goal.js)\<close>

text \<open>
  JavaScript numbers are modelled as the real numbers they denote: rounding of IEEE
  doubles is not part of the embedding. Instants (\<open>Date\<close> values) are integers, the
  milliseconds since the epoch that \<open>getTime()\<close> returns. Every read of the ambient
  clock is an explicit parameter, one instant for all the reads of one save. Owners and
  document ids are natural numbers.
\<close>

type_synonym time = int
type_synonym user_id = nat
type_synonym goal_id = nat

datatype status = Active | Completed | Paused | Cancelled

datatype priority = Low | Medium | High | Urgent

datatype goal_category =
  EmergencyFund | Gadget | Travel | GEducation | Investment | GEntertainment | GHealth | GOther

datatype frequency = Daily | Weekly | Monthly

datatype source = Manual | AutoSaveSource | Bonus | OtherSource

text \<open>The \<open>autoSave\<close> sub-document; \<open>as_amount\<close> is its field \<open>amount\<close>.\<close>

record autoSave =
  enabled :: bool
  as_amount :: real
  frequency :: frequency
  lastAutoSave :: "time option"

text \<open>An element of \<open>milestones\<close>; \<open>m_amount\<close> is its field \<open>amount\<close>.\<close>

record milestone =
  percentage :: real
  m_amount :: real
  achievedDate :: "time option"
  isAchieved :: bool

text \<open>An element of \<open>contributions\<close>; the fields carry the prefix \<open>c_\<close>.\<close>

record contribution =
  c_amount :: real
  c_date :: time
  c_note :: string
  c_source :: source

record goal =
  user :: user_id
  title :: string
  description :: "string option"
  targetAmount :: real
  currentAmount :: real
  category :: goal_category
  priority :: priority
  targetDate :: time
  status :: status
  autoSave :: autoSave
  milestones :: "milestone list"
  contributions :: "contribution list"
  tags :: "string list"
  isPublic :: bool
  completedAt :: "time option"
  createdAt :: time
  updatedAt :: time

subsection \<open>The pre-save hook and \<open>addContribution\<close>\<close>

text \<open>
  The body of the \<open>forEach\<close> of the hook, for one milestone: an unachieved milestone
  whose amount the current amount has reached is flagged and dated; every other
  milestone is left as it is.
\<close>

definition check_milestone :: "time \<Rightarrow> real \<Rightarrow> milestone \<Rightarrow> milestone" where
  "check_milestone t cur m =
     (if \<not> isAchieved m \<and> cur \<ge> m_amount m
      then m\<lparr>isAchieved := True, achievedDate := Some t\<rparr>
      else m)"

text \<open>
  \<open>goalSchema.pre('save')\<close>: stamp \<open>updatedAt\<close>, complete an active goal that has
  reached its target, then walk the milestones. \<open>t\<close> is the instant of the save.
\<close>

definition pre_save :: "time \<Rightarrow> goal \<Rightarrow> goal" where
  "pre_save t g =
     (let g1 = g\<lparr>updatedAt := t\<rparr>;
          g2 = (if currentAmount g1 \<ge> targetAmount g1 \<and> status g1 = Active
                then g1\<lparr>status := Completed, completedAt := Some t\<rparr>
                else g1)
      in g2\<lparr>milestones := map (check_milestone t (currentAmount g2)) (milestones g2)\<rparr>)"

text \<open>
  \<open>goalSchema.methods.addContribution\<close>: push the contribution, add the amount, save.
  The document returned is the one the save writes.
\<close>

definition addContribution :: "real \<Rightarrow> string \<Rightarrow> source \<Rightarrow> time \<Rightarrow> goal \<Rightarrow> goal" where
  "addContribution amount note src t g =
     pre_save t
       (g\<lparr>contributions := contributions g @
              [\<lparr>c_amount = amount, c_date = t, c_note = note, c_source = src\<rparr>],
          currentAmount := currentAmount g + amount\<rparr>)"

text \<open>A sequence of \<open>addContribution\<close> calls on one goal, each with its own instant.\<close>

fun addContributions :: "(real \<times> string \<times> source \<times> time) list \<Rightarrow> goal \<Rightarrow> goal" where
  "addContributions [] g = g"
| "addContributions ((amount, note, src, t) # cs) g =
     addContributions cs (addContribution amount note src t g)"

definition contributed :: "goal \<Rightarrow> real" where
  "contributed g = sum_list (map c_amount (contributions g))"

section \<open>The goals router (src/unnamed/part_005, mounted at /api/goals)\<close>

text \<open>
  A rejected request is the HTTP status and the \<open>message\<close> of the JSON body the handler
  sends. The handlers' \<open>catch\<close> blocks (a failing store, status 500) are outside the
  embedding, and so is the schema validation that Mongoose runs inside \<open>save()\<close>.
\<close>

datatype error = HttpError nat string

text \<open>The goals collection, by document id.\<close>

type_synonym store = "goal_id \<rightharpoonup> goal"

text \<open>\<open>Goal.findOne({ _id: id, user: u })\<close>.\<close>

definition findOne :: "goal_id \<Rightarrow> user_id \<Rightarrow> store \<Rightarrow> goal option" where
  "findOne gid u db =
     (case db gid of
        None \<Rightarrow> None
      | Some g \<Rightarrow> if user g = u then Some g else None)"

text \<open>\<open>String.prototype.trim\<close>, on the ASCII white space characters.\<close>

definition is_space :: "char \<Rightarrow> bool" where
  "is_space c = (c \<in> set [CHR '' '', CHR 0x09, CHR 0x0A, CHR 0x0B, CHR 0x0C, CHR 0x0D])"

definition trim :: "string \<Rightarrow> string" where
  "trim s = rev (dropWhile is_space (rev (dropWhile is_space s)))"

text \<open>
  An \<open>autoSave\<close> object of a request body: each field may be absent. \<open>merge_autoSave\<close>
  is the spread \<open>{ ...base, ...patch }\<close>.
\<close>

record autoSave_patch =
  p_enabled :: "bool option"
  p_amount :: "real option"
  p_frequency :: "frequency option"
  p_lastAutoSave :: "time option option"

definition merge_autoSave :: "autoSave \<Rightarrow> autoSave_patch \<Rightarrow> autoSave" where
  "merge_autoSave base p =
     \<lparr>enabled = (case p_enabled p of None \<Rightarrow> enabled base | Some b \<Rightarrow> b),
      as_amount = (case p_amount p of None \<Rightarrow> as_amount base | Some a \<Rightarrow> a),
      frequency = (case p_frequency p of None \<Rightarrow> frequency base | Some f \<Rightarrow> f),
      lastAutoSave = (case p_lastAutoSave p of None \<Rightarrow> lastAutoSave base | Some l \<Rightarrow> l)\<rparr>"

text \<open>The schema defaults of the \<open>autoSave\<close> sub-document.\<close>

definition default_autoSave :: autoSave where
  "default_autoSave =
     \<lparr>enabled = False, as_amount = 0, frequency = Monthly, lastAutoSave = None\<rparr>"

text \<open>
  The milestone list that both \<open>POST /\<close> and \<open>PUT /:id\<close> build from a target amount;
  \<open>achievedDate\<close> and \<open>isAchieved\<close> take their schema defaults.
\<close>

definition default_milestones :: "real \<Rightarrow> milestone list" where
  "default_milestones ta =
     [\<lparr>percentage = 25, m_amount = ta * 0.25, achievedDate = None, isAchieved = False\<rparr>,
      \<lparr>percentage = 50, m_amount = ta * 0.5, achievedDate = None, isAchieved = False\<rparr>,
      \<lparr>percentage = 75, m_amount = ta * 0.75, achievedDate = None, isAchieved = False\<rparr>,
      \<lparr>percentage = 100, m_amount = ta, achievedDate = None, isAchieved = False\<rparr>]"

subsection \<open>\<open>POST /api/goals\<close>\<close>

record create_req =
  new_title :: "string option"
  new_description :: "string option"
  new_targetAmount :: "real option"
  new_category :: "goal_category option"
  new_priority :: "priority option"
  new_targetDate :: "time option"
  new_autoSave :: "autoSave_patch option"
  new_tags :: "string list option"

text \<open>JavaScript truthiness of an optional string and of an optional number.\<close>

definition truthy_str :: "string option \<Rightarrow> bool" where
  "truthy_str s = (case s of None \<Rightarrow> False | Some x \<Rightarrow> x \<noteq> [])"

definition truthy_num :: "real option \<Rightarrow> bool" where
  "truthy_num n = (case n of None \<Rightarrow> False | Some x \<Rightarrow> x \<noteq> 0)"

text \<open>
  \<open>now\<close> is the instant the target date is compared with, \<open>t\<close> the instant of the
  construction and save of the document, \<open>gid\<close> the id the store gives it.
\<close>

definition post_goal ::
  "user_id \<Rightarrow> create_req \<Rightarrow> time \<Rightarrow> time \<Rightarrow> goal_id \<Rightarrow> store \<Rightarrow> (error + goal) \<times> store" where
  "post_goal u req now t gid db =
     (if \<not> truthy_str (new_title req) \<or> \<not> truthy_num (new_targetAmount req)
          \<or> new_targetDate req = None
      then (Inl (HttpError 400 ''Title, target amount, and target date are required.''), db)
      else if the (new_targetAmount req) \<le> 0
      then (Inl (HttpError 400 ''Target amount must be greater than 0.''), db)
      else if the (new_targetDate req) \<le> now
      then (Inl (HttpError 400 ''Target date must be in the future.''), db)
      else
        let g = pre_save t
              \<lparr>user = u,
               title = trim (the (new_title req)),
               description = (if truthy_str (new_description req)
                              then Some (trim (the (new_description req))) else None),
               targetAmount = the (new_targetAmount req),
               currentAmount = 0,
               category = (case new_category req of None \<Rightarrow> GOther | Some c \<Rightarrow> c),
               priority = (case new_priority req of None \<Rightarrow> Medium | Some p \<Rightarrow> p),
               targetDate = the (new_targetDate req),
               status = Active,
               autoSave = (case new_autoSave req of
                             None \<Rightarrow> default_autoSave
                           | Some p \<Rightarrow> merge_autoSave default_autoSave p),
               milestones = default_milestones (the (new_targetAmount req)),
               contributions = [],
               tags = (case new_tags req of None \<Rightarrow> [] | Some ts \<Rightarrow> map trim ts),
               isPublic = False,
               completedAt = None,
               createdAt = t,
               updatedAt = t\<rparr>
        in (Inr g, db(gid \<mapsto> g)))"

subsection \<open>\<open>PUT /api/goals/:id\<close>\<close>

record update_req =
  upd_title :: "string option"
  upd_description :: "string option"
  upd_targetAmount :: "real option"
  upd_category :: "goal_category option"
  upd_priority :: "priority option"
  upd_targetDate :: "time option"
  upd_status :: "status option"
  upd_autoSave :: "autoSave_patch option"
  upd_tags :: "string list option"

text \<open>The block "Update fields if provided".\<close>

definition put_fields :: "update_req \<Rightarrow> goal \<Rightarrow> goal" where
  "put_fields req g =
     (let g1 = (if truthy_str (upd_title req) then g\<lparr>title := trim (the (upd_title req))\<rparr> else g);
          g2 = (if truthy_str (upd_description req)
                then g1\<lparr>description := Some (trim (the (upd_description req)))\<rparr> else g1);
          g3 = (case upd_category req of None \<Rightarrow> g2 | Some c \<Rightarrow> g2\<lparr>category := c\<rparr>);
          g4 = (case upd_priority req of None \<Rightarrow> g3 | Some p \<Rightarrow> g3\<lparr>priority := p\<rparr>);
          g5 = (case upd_status req of None \<Rightarrow> g4 | Some s \<Rightarrow> g4\<lparr>status := s\<rparr>);
          g6 = (case upd_autoSave req of
                  None \<Rightarrow> g5
                | Some p \<Rightarrow> g5\<lparr>autoSave := merge_autoSave (autoSave g5) p\<rparr>)
      in (case upd_tags req of None \<Rightarrow> g6 | Some ts \<Rightarrow> g6\<lparr>tags := map trim ts\<rparr>))"

text \<open>The block \<open>if (targetAmount !== undefined)\<close>: the milestone list is built anew.\<close>

definition put_target :: "update_req \<Rightarrow> goal \<Rightarrow> error + goal" where
  "put_target req g =
     (case upd_targetAmount req of
        None \<Rightarrow> Inr g
      | Some ta \<Rightarrow>
          if ta \<le> 0 then Inl (HttpError 400 ''Target amount must be greater than 0.'')
          else Inr (g\<lparr>targetAmount := ta, milestones := default_milestones ta\<rparr>))"

text \<open>The block \<open>if (targetDate)\<close>.\<close>

definition put_date :: "update_req \<Rightarrow> time \<Rightarrow> goal \<Rightarrow> error + goal" where
  "put_date req now g =
     (case upd_targetDate req of
        None \<Rightarrow> Inr g
      | Some d \<Rightarrow>
          if d \<le> now then Inl (HttpError 400 ''Target date must be in the future.'')
          else Inr (g\<lparr>targetDate := d\<rparr>))"

text \<open>
  The handler: an early \<open>return\<close> leaves the store as it was, since the edits so far
  were made on the fetched document only.
\<close>

definition put_goal ::
  "user_id \<Rightarrow> goal_id \<Rightarrow> update_req \<Rightarrow> time \<Rightarrow> time \<Rightarrow> store \<Rightarrow> (error + goal) \<times> store" where
  "put_goal u gid req now t db =
     (case findOne gid u db of
        None \<Rightarrow> (Inl (HttpError 404 ''Goal not found.''), db)
      | Some g \<Rightarrow>
          (case put_target req (put_fields req g) of
             Inl e \<Rightarrow> (Inl e, db)
           | Inr g1 \<Rightarrow>
               (case put_date req now g1 of
                  Inl e \<Rightarrow> (Inl e, db)
                | Inr g2 \<Rightarrow> let g3 = pre_save t g2 in (Inr g3, db(gid \<mapsto> g3)))))"

subsection \<open>\<open>POST /api/goals/:id/contribute\<close>\<close>

record contribute_req =
  cr_amount :: "real option"
  cr_note :: "string option"
  cr_source :: "source option"

definition contribute ::
  "user_id \<Rightarrow> goal_id \<Rightarrow> contribute_req \<Rightarrow> time \<Rightarrow> store \<Rightarrow> (error + goal) \<times> store" where
  "contribute u gid req t db =
     (if \<not> truthy_num (cr_amount req) \<or> the (cr_amount req) \<le> 0
      then (Inl (HttpError 400 ''Valid contribution amount is required.''), db)
      else
        (case findOne gid u db of
           None \<Rightarrow> (Inl (HttpError 404 ''Goal not found.''), db)
         | Some g \<Rightarrow>
             if status g \<noteq> Active
             then (Inl (HttpError 400 ''Cannot contribute to inactive goal.''), db)
             else
               let g1 = addContribution
                          (the (cr_amount req))
                          (case cr_note req of None \<Rightarrow> [] | Some n \<Rightarrow> n)
                          (case cr_source req of None \<Rightarrow> Manual | Some s \<Rightarrow> s)
                          t g
               in (Inr g1, db(gid \<mapsto> g1))))"

subsection \<open>\<open>POST /api/goals/:id/auto-save\<close>\<close>

text \<open>
  The due check of the handler. \<open>daysSinceLastSave\<close> is the elapsed time in days, a
  fraction in general.
\<close>

definition isDue :: "time \<Rightarrow> autoSave \<Rightarrow> bool" where
  "isDue now a =
     (case lastAutoSave a of
        None \<Rightarrow> True
      | Some l \<Rightarrow>
          let daysSinceLastSave = real_of_int (now - l) / (1000 * 60 * 60 * 24)
          in (case frequency a of
                Daily \<Rightarrow> daysSinceLastSave \<ge> 1
              | Weekly \<Rightarrow> daysSinceLastSave \<ge> 7
              | Monthly \<Rightarrow> daysSinceLastSave \<ge> 30))"

text \<open>
  \<open>now\<close> is the instant read for the due check; \<open>t1\<close> and \<open>t2\<close> are the instants of the
  save inside \<open>addContribution\<close> and of the save that follows the stamp.
\<close>

definition auto_save ::
  "user_id \<Rightarrow> goal_id \<Rightarrow> time \<Rightarrow> time \<Rightarrow> time \<Rightarrow> store \<Rightarrow> (error + goal) \<times> store" where
  "auto_save u gid now t1 t2 db =
     (case findOne gid u db of
        None \<Rightarrow> (Inl (HttpError 404 ''Goal not found.''), db)
      | Some g \<Rightarrow>
          if \<not> enabled (autoSave g) \<or> as_amount (autoSave g) \<le> 0
          then (Inl (HttpError 400 ''Auto-save is not enabled for this goal.''), db)
          else if status g \<noteq> Active
          then (Inl (HttpError 400 ''Cannot auto-save to inactive goal.''), db)
          else if \<not> isDue now (autoSave g)
          then (Inl (HttpError 400 ''Auto-save is not due yet.''), db)
          else
            let g1 = addContribution (as_amount (autoSave g)) ''Auto-save contribution''
                       AutoSaveSource t1 g;
                g2 = g1\<lparr>autoSave := (autoSave g1)\<lparr>lastAutoSave := Some now\<rparr>\<rparr>;
                g3 = pre_save t2 g2
            in (Inr g3, db(gid \<mapsto> g3)))"

subsection \<open>\<open>DELETE /api/goals/:id\<close>\<close>

definition delete_goal :: "user_id \<Rightarrow> goal_id \<Rightarrow> store \<Rightarrow> (error + goal) \<times> store" where
  "delete_goal u gid db =
     (case findOne gid u db of
        None \<Rightarrow> (Inl (HttpError 404 ''Goal not found.''), db)
      | Some g \<Rightarrow> (Inr g, db(gid := None)))"

subsection \<open>The mutating requests of the router\<close>

text \<open>
  A request on an existing goal, with the instants its handler reads, and the router's
  dispatch. \<open>run_requests\<close> serves a list of requests, each by its user on its goal,
  whether or not the one before was rejected.
\<close>

datatype request =
  Contribute contribute_req time
| AutoSave time time time
| Update update_req time time
| Delete

fun serve :: "user_id \<Rightarrow> goal_id \<Rightarrow> request \<Rightarrow> store \<Rightarrow> (error + goal) \<times> store" where
  "serve u gid (Contribute req t) db = contribute u gid req t db"
| "serve u gid (AutoSave now t1 t2) db = auto_save u gid now t1 t2 db"
| "serve u gid (Update req now t) db = put_goal u gid req now t db"
| "serve u gid Delete db = delete_goal u gid db"

fun run_requests :: "(user_id \<times> goal_id \<times> request) list \<Rightarrow> store \<Rightarrow> store" where
  "run_requests [] db = db"
| "run_requests ((u, gid, r) # rs) db = run_requests rs (snd (serve u gid r db))"

text \<open>A request that deletes, and a request that carries a target amount.\<close>

fun is_delete :: "request \<Rightarrow> bool" where
  "is_delete Delete = True"
| "is_delete _ = False"

fun sets_target :: "request \<Rightarrow> bool" where
  "sets_target (Update req now t) = (upd_targetAmount req \<noteq> None)"
| "sets_target _ = False"

subsection \<open>The due rule as the specification words it\<close>

text \<open>
  The period of a frequency in days, and the rule "due iff \<open>lastAutoSave\<close> is unset or
  at least one period has elapsed", in milliseconds.
\<close>

fun period_days :: "frequency \<Rightarrow> int" where
  "period_days Daily = 1"
| "period_days Weekly = 7"
| "period_days Monthly = 30"

definition day_ms :: int where
  "day_ms = 86400000"

definition due_by_period :: "time \<Rightarrow> autoSave \<Rightarrow> bool" where
  "due_by_period now a =
     (case lastAutoSave a of
        None \<Rightarrow> True
      | Some l \<Rightarrow> now - l \<ge> period_days (frequency a) * day_ms)"

subsection \<open>Milestone flags kept\<close>

text \<open>
  \<open>keeps g g'\<close>: \<open>g'\<close> has as many milestones as \<open>g\<close>, and each milestone achieved in
  \<open>g\<close> is achieved in \<open>g'\<close>. \<open>store_keeps\<close> lifts it to every stored goal.
\<close>

definition keeps :: "goal \<Rightarrow> goal \<Rightarrow> bool" where
  "keeps g g' \<longleftrightarrow> length (milestones g') = length (milestones g) \<and>
     (\<forall>i < length (milestones g).
        isAchieved (milestones g ! i) \<longrightarrow> isAchieved (milestones g' ! i))"

definition store_keeps :: "store \<Rightarrow> store \<Rightarrow> bool" where
  "store_keeps db db' \<longleftrightarrow>
     (\<forall>k g. db k = Some g \<longrightarrow> (\<exists>g'. db' k = Some g' \<and> keeps g g'))"

subsection \<open>A concrete goal\<close>

text \<open>
  The request that creates a goal of 100 due at instant 1000, and the document that
  \<open>POST /api/goals\<close> stores for owner 1 at instant 0.
\<close>

definition laptop_req :: create_req where
  "laptop_req =
     \<lparr>new_title = Some ''Laptop'', new_description = None, new_targetAmount = Some 100,
      new_category = Some Gadget, new_priority = None, new_targetDate = Some 1000,
      new_autoSave = None, new_tags = None\<rparr>"

definition laptop_goal :: goal where
  "laptop_goal =
     \<lparr>user = 1, title = ''Laptop'', description = None, targetAmount = 100,
      currentAmount = 0, category = Gadget, priority = Medium, targetDate = 1000,
      status = Active, autoSave = default_autoSave, milestones = default_milestones 100,
      contributions = [], tags = [], isPublic = False, completedAt = None,
      createdAt = 0, updatedAt = 0\<rparr>"

text \<open>
  The same goal after a manual contribution of 30 at instant 5 (its 25 percent
  milestone is achieved), and a request that raises the target to 1000.
\<close>

definition laptop_goal_30 :: goal where
  "laptop_goal_30 = addContribution 30 [] Manual 5 laptop_goal"

definition raise_target_req :: update_req where
  "raise_target_req =
     \<lparr>upd_title = None, upd_description = None, upd_targetAmount = Some 1000,
      upd_category = None, upd_priority = None, upd_targetDate = None, upd_status = None,
      upd_autoSave = None, upd_tags = None\<rparr>"

text \<open>The same goal paused, and with a weekly auto-save of 20 last run at instant 0.\<close>

definition paused_goal :: goal where
  "paused_goal = laptop_goal\<lparr>status := Paused\<rparr>"

definition saver_goal :: goal where
  "saver_goal =
     laptop_goal\<lparr>autoSave :=
       \<lparr>enabled = True, as_amount = 20, frequency = Weekly, lastAutoSave = Some 0\<rparr>\<rparr>"


text \<open>A request that only renames the goal, and a contribution request of 10.\<close>

definition rename_req :: update_req where
  "rename_req =
     \<lparr>upd_title = Some ''  New laptop '', upd_description = None, upd_targetAmount = None,
      upd_category = None, upd_priority = Some High, upd_targetDate = None,
      upd_status = Some Paused, upd_autoSave = None, upd_tags = None\<rparr>"

definition ten_req :: contribute_req where
  "ten_req = \<lparr>cr_amount = Some 10, cr_note = None, cr_source = None\<rparr>"

text \<open>
  Two requests of owner 1 on goal 7, neither of which carries a target amount, and a
  store that holds the goal with its first milestone achieved under id 7.
\<close>

definition example_requests :: "(user_id \<times> goal_id \<times> request) list" where
  "example_requests = [(1, 7, Contribute ten_req 8), (1, 7, Update rename_req 9 10)]"

definition laptop_db :: store where
  "laptop_db = [7 \<mapsto> laptop_goal_30]"

section \<open>Query helpers of the goal model\<close>

text \<open>
  The aggregation stage \<open>$group\<close>: one group per key value, with the documents that
  carry it. MongoDB leaves the order of the groups open; the model lists them in the
  order in which their keys first occur.
\<close>

definition group_by :: "('a \<Rightarrow> 'k) \<Rightarrow> 'a list \<Rightarrow> ('k \<times> 'a list) list" where
  "group_by key xs = map (\<lambda>k. (k, filter (\<lambda>x. key x = k) xs)) (remdups (map key xs))"

text \<open>A document of the \<open>$group\<close> stage of \<open>getUserGoalStats\<close>, with \<open>grp_id\<close> for \<open>_id\<close>.\<close>

record goal_group =
  grp_id :: status
  grp_count :: nat
  grp_totalTarget :: real
  grp_totalCurrent :: real

record status_stats =
  count :: nat
  totalTarget :: real
  totalCurrent :: real

text \<open>
  \<open>goalSchema.statics.getUserGoalStats\<close>. The collection is the list \<open>goals\<close>; the
  result object, keyed by the four status names, is a function on \<open>status\<close>.
\<close>

definition getUserGoalStats :: "goal list \<Rightarrow> user_id \<Rightarrow> status \<Rightarrow> status_stats" where
  "getUserGoalStats goals userId =
     (let stats = map (\<lambda>(s, grp).
                    \<lparr>grp_id = s, grp_count = length grp,
                     grp_totalTarget = sum_list (map targetAmount grp),
                     grp_totalCurrent = sum_list (map currentAmount grp)\<rparr>)
                  (group_by status (filter (\<lambda>g. user g = userId) goals));
          result = (\<lambda>s. \<lparr>count = 0, totalTarget = 0, totalCurrent = 0\<rparr>)
      in fold (\<lambda>stat r. r(grp_id stat :=
                 \<lparr>count = grp_count stat, totalTarget = grp_totalTarget stat,
                  totalCurrent = grp_totalCurrent stat\<rparr>))
           stats result)"

text \<open>The stored string of a priority, which is what the \<open>sort\<close> stage compares.\<close>

fun priority_name :: "priority \<Rightarrow> string" where
  "priority_name Low = ''low''"
| "priority_name Medium = ''medium''"
| "priority_name High = ''high''"
| "priority_name Urgent = ''urgent''"

text \<open>
  \<open>goalSchema.statics.getGoalsByPriority\<close>: \<open>sort({ priority: 1, targetDate: 1 })\<close>
  orders ascending by the priority string, byte by byte, then by the target date.
\<close>

definition getGoalsByPriority :: "goal list \<Rightarrow> user_id \<Rightarrow> goal list" where
  "getGoalsByPriority goals userId =
     sort_key (\<lambda>g. (priority_name (priority g), targetDate g))
       (filter (\<lambda>g. user g = userId \<and> status g = Active) goals)"

text \<open>\<open>goalSchema.statics.getOverdueGoals\<close>, at the instant \<open>today\<close>.\<close>

definition getOverdueGoals :: "goal list \<Rightarrow> user_id \<Rightarrow> time \<Rightarrow> goal list" where
  "getOverdueGoals goals userId today =
     filter (\<lambda>g. user g = userId \<and> status g = Active \<and> targetDate g < today) goals"

section \<open>The expense model (src/unnamed/part_001)\<close>

datatype expense_category =
  Food | Transport | Entertainment | Shopping | Education | Health | Rent | Utilities
| Subscriptions | Party | Emergency | Other

text \<open>The fields of an expense that the analytics read, with the prefix \<open>e_\<close>.\<close>

record expense =
  e_user :: user_id
  e_amount :: real
  e_description :: string
  e_category :: expense_category
  e_date :: time

text \<open>A document of the category breakdown, with \<open>cat_id\<close> for \<open>_id\<close>.\<close>

record category_total =
  cat_id :: expense_category
  totalAmount :: real
  cat_count :: nat
  avgAmount :: real

text \<open>
  \<open>expenseSchema.statics.getCategoryWiseExpenses\<close>: \<open>$match\<close> on owner and window,
  \<open>$group\<close> by category with \<open>$sum\<close>, a count and \<open>$avg\<close>, \<open>$sort\<close> descending by
  \<open>totalAmount\<close>.
\<close>

definition getCategoryWiseExpenses ::
  "expense list \<Rightarrow> user_id \<Rightarrow> time \<Rightarrow> time \<Rightarrow> category_total list" where
  "getCategoryWiseExpenses expenses userId startDate endDate =
     sort_key (\<lambda>r. - totalAmount r)
       (map (\<lambda>(c, grp).
              \<lparr>cat_id = c, totalAmount = sum_list (map e_amount grp),
               cat_count = length grp,
               avgAmount = sum_list (map e_amount grp) / real (length grp)\<rparr>)
          (group_by e_category
             (filter (\<lambda>e. e_user e = userId \<and> startDate \<le> e_date e \<and> e_date e \<le> endDate)
                expenses)))"

section \<open>Budget analysis (src/unnamed/part_004, GET /api/analytics/budget-analysis)\<close>

text \<open>
  The metrics of the handler, as functions of the month's spending \<open>currentTotal\<close>, the
  user's \<open>monthlyBudget\<close>, the day of the month \<open>currentDay\<close> and \<open>daysInMonth\<close>.
\<close>

definition budgetUtilization :: "real \<Rightarrow> real \<Rightarrow> real" where
  "budgetUtilization currentTotal monthlyBudget =
     (if monthlyBudget > 0 then (currentTotal / monthlyBudget) * 100 else 0)"

definition remainingBudget :: "real \<Rightarrow> real \<Rightarrow> real" where
  "remainingBudget currentTotal monthlyBudget = monthlyBudget - currentTotal"

definition dailyAverage :: "real \<Rightarrow> int \<Rightarrow> real" where
  "dailyAverage currentTotal currentDay =
     (if currentDay > 0 then currentTotal / real_of_int currentDay else 0)"

definition projectedMonthlyTotal :: "real \<Rightarrow> int \<Rightarrow> int \<Rightarrow> real" where
  "projectedMonthlyTotal currentTotal currentDay daysInMonth =
     dailyAverage currentTotal currentDay * real_of_int daysInMonth"

definition budgetStatus :: "real \<Rightarrow> real \<Rightarrow> int \<Rightarrow> int \<Rightarrow> string" where
  "budgetStatus currentTotal monthlyBudget currentDay daysInMonth =
     (if budgetUtilization currentTotal monthlyBudget > 100 then ''over-budget''
      else if budgetUtilization currentTotal monthlyBudget > 80 then ''warning''
      else if projectedMonthlyTotal currentTotal currentDay daysInMonth > monthlyBudget
      then ''projected-overspend''
      else ''on-track'')"

record category_budgets =
  food :: real
  transport :: real
  entertainment :: real
  education :: real
  other :: real

text \<open>\<open>suggestedCategoryBudgets\<close>: computed and returned whatever the budget is.\<close>

definition suggestedCategoryBudgets :: "real \<Rightarrow> category_budgets" where
  "suggestedCategoryBudgets monthlyBudget =
     \<lparr>food = monthlyBudget * 0.35, transport = monthlyBudget * 0.15,
      entertainment = monthlyBudget * 0.20, education = monthlyBudget * 0.15,
      other = monthlyBudget * 0.15\<rparr>"

section \<open>Budget suggestions (src/unnamed/part_002, generateBudgetSuggestions)\<close>

record suggestion =
  s_category :: string
  suggestedAmount :: real
  s_description :: string

text \<open>\<open>studentBudgetAllocation\<close>, in the order of its keys.\<close>

definition studentBudgetAllocation :: "(string \<times> real) list" where
  "studentBudgetAllocation =
     [(''food'', 0.35), (''transport'', 0.15), (''entertainment'', 0.20),
      (''education'', 0.15), (''other'', 0.15)]"

text \<open>The rupee sign of the descriptions, in UTF-8.\<close>

definition rupee :: string where
  "rupee = [CHR 0xE2, CHR 0x82, CHR 0xB9]"

text \<open>
  \<open>generateBudgetSuggestions\<close>. The two number formats of the template string are
  parameters: \<open>toLocaleString\<close> and the plain conversion \<open>toString\<close>.
\<close>

definition generateBudgetSuggestions ::
  "(real \<Rightarrow> string) \<Rightarrow> (real \<Rightarrow> string) \<Rightarrow> real \<Rightarrow> suggestion list" where
  "generateBudgetSuggestions toLocaleString toString monthlyBudget =
     (if monthlyBudget > 0
      then map (\<lambda>(c, share).
                 \<lparr>s_category = c,
                  suggestedAmount = monthlyBudget * share,
                  s_description =
                    ''Allocate '' @ rupee @ toLocaleString (monthlyBudget * share) @ '' for ''
                      @ c @ '' ('' @ toString (share * 100) @ ''% of budget)''\<rparr>)
             studentBudgetAllocation
      else [\<lparr>s_category = ''general'', suggestedAmount = 0,
             s_description =
               ''Set a monthly budget to get personalized category-wise suggestions''\<rparr>])
     @ [\<lparr>s_category = ''tips'', suggestedAmount = 0,
         s_description = ''Use the 50/30/20 rule: 50% needs, 30% wants, 20% savings''\<rparr>]"

section \<open>Financial health (src/unnamed/part_004, GET /api/analytics/financial-health)\<close>

text \<open>
  Every division of the handlers above is guarded against a zero divisor; the goal
  progress of the health score is not, so its value is a JavaScript number that may be
  infinite or \<open>NaN\<close>. \<open>js_div\<close> is \<open>/\<close>, \<open>js_times\<close> is \<open>*\<close> by a finite factor, and
  \<open>js_ge\<close> is \<open>>=\<close> against a finite bound (false on \<open>NaN\<close>).
\<close>

datatype jsnum = Num real | PosInfinity | NegInfinity | NaN

definition js_div :: "real \<Rightarrow> real \<Rightarrow> jsnum" where
  "js_div a b =
     (if b \<noteq> 0 then Num (a / b)
      else if a > 0 then PosInfinity
      else if a < 0 then NegInfinity
      else NaN)"

fun js_times :: "jsnum \<Rightarrow> real \<Rightarrow> jsnum" where
  "js_times (Num x) c = Num (x * c)"
| "js_times PosInfinity c = (if c > 0 then PosInfinity else if c < 0 then NegInfinity else NaN)"
| "js_times NegInfinity c = (if c > 0 then NegInfinity else if c < 0 then PosInfinity else NaN)"
| "js_times NaN c = NaN"

fun js_ge :: "jsnum \<Rightarrow> real \<Rightarrow> bool" where
  "js_ge (Num x) c = (x \<ge> c)"
| "js_ge PosInfinity c = True"
| "js_ge NegInfinity c = False"
| "js_ge NaN c = False"

text \<open>\<open>userSchema.methods.getBudgetUtilization\<close>, from the month's expenses.\<close>

definition getBudgetUtilization :: "real \<Rightarrow> real \<Rightarrow> real" where
  "getBudgetUtilization currentExpenses monthlyBudget =
     (if monthlyBudget = 0 then 0 else (currentExpenses / monthlyBudget) * 100)"

record score_factor =
  factor :: string
  points :: real
  factor_status :: string

text \<open>
  The running pair of \<open>healthScore\<close> and \<open>scoreFactors\<close>. \<open>award\<close> is a branch that adds
  points and pushes its factor, \<open>remark\<close> a branch that only pushes a factor of 0 points.
\<close>

type_synonym score_state = "real \<times> score_factor list"

definition award :: "real \<Rightarrow> string \<Rightarrow> string \<Rightarrow> score_state \<Rightarrow> score_state" where
  "award p f s st = (fst st + p, snd st @ [\<lparr>factor = f, points = p, factor_status = s\<rparr>])"

definition remark :: "string \<Rightarrow> string \<Rightarrow> score_state \<Rightarrow> score_state" where
  "remark f s st = (fst st, snd st @ [\<lparr>factor = f, points = 0, factor_status = s\<rparr>])"

text \<open>Factor 1: savings rate.\<close>

definition factor_savings :: "real \<Rightarrow> score_state \<Rightarrow> score_state" where
  "factor_savings rate st =
     (if rate \<ge> 20 then award 30 ''Excellent savings rate'' ''excellent'' st
      else if rate \<ge> 10 then award 20 ''Good savings rate'' ''good'' st
      else if rate \<ge> 0 then award 10 ''Positive savings'' ''fair'' st
      else remark ''Negative savings'' ''poor'' st)"

text \<open>Factor 2: budget adherence.\<close>

definition factor_budget :: "real \<Rightarrow> score_state \<Rightarrow> score_state" where
  "factor_budget utilization st =
     (if utilization \<le> 80 then award 25 ''Excellent budget control'' ''excellent'' st
      else if utilization \<le> 100 then award 15 ''Good budget control'' ''good'' st
      else if utilization \<le> 120 then award 5 ''Slight budget overspend'' ''fair'' st
      else remark ''Significant budget overspend'' ''poor'' st)"

text \<open>Factor 3: goal progress.\<close>

definition totalGoalProgress :: "(status \<Rightarrow> status_stats) \<Rightarrow> jsnum" where
  "totalGoalProgress goalStats =
     (if count (goalStats Active) > 0
      then js_times (js_div (totalCurrent (goalStats Active)) (totalTarget (goalStats Active))) 100
      else Num 0)"

definition factor_goals :: "(status \<Rightarrow> status_stats) \<Rightarrow> score_state \<Rightarrow> score_state" where
  "factor_goals goalStats st =
     (let activeGoals = count (goalStats Active);
          completedGoals = count (goalStats Completed)
      in if completedGoals > 0 \<and> js_ge (totalGoalProgress goalStats) 50
         then award 20 ''Excellent goal achievement'' ''excellent'' st
         else if js_ge (totalGoalProgress goalStats) 25
         then award 15 ''Good goal progress'' ''good'' st
         else if activeGoals > 0
         then award 10 ''Goals set but limited progress'' ''fair'' st
         else remark ''No active financial goals'' ''poor'' st)"

text \<open>Factor 4: expense consistency, from the totals of the months with expenses.\<close>

definition coefficientOfVariation :: "real list \<Rightarrow> real" where
  "coefficientOfVariation monthlyExpenses =
     (let avgExpense = sum_list monthlyExpenses / real (length monthlyExpenses);
          variance = sum_list (map (\<lambda>expense. (expense - avgExpense)\<^sup>2) monthlyExpenses)
                       / real (length monthlyExpenses);
          stdDev = sqrt variance
      in if avgExpense > 0 then (stdDev / avgExpense) * 100 else 0)"

definition factor_consistency :: "real list \<Rightarrow> score_state \<Rightarrow> score_state" where
  "factor_consistency monthlyExpenses st =
     (if length monthlyExpenses \<ge> 2
      then (if coefficientOfVariation monthlyExpenses \<le> 20
            then award 15 ''Consistent spending patterns'' ''excellent'' st
            else if coefficientOfVariation monthlyExpenses \<le> 40
            then award 10 ''Moderately consistent spending'' ''good'' st
            else award 5 ''Inconsistent spending patterns'' ''fair'' st)
      else st)"

text \<open>Factor 5: emergency fund, on the first active goal of that category.\<close>

definition factor_emergency :: "goal list \<Rightarrow> score_state \<Rightarrow> score_state" where
  "factor_emergency savingsGoals st =
     (case find (\<lambda>goal. category goal = EmergencyFund) savingsGoals of
        Some emergencyFundGoal \<Rightarrow>
          if currentAmount emergencyFundGoal \<ge> targetAmount emergencyFundGoal * 0.5
          then award 10 ''Emergency fund in progress'' ''good'' st
          else award 5 ''Emergency fund started'' ''fair'' st
      | None \<Rightarrow> remark ''No emergency fund'' ''poor'' st)"

definition healthStatus_of :: "real \<Rightarrow> string" where
  "healthStatus_of healthScore =
     (if healthScore \<ge> 80 then ''excellent''
      else if healthScore \<ge> 60 then ''good''
      else if healthScore \<ge> 40 then ''fair''
      else ''poor'')"

record financialHealth =
  healthScore :: int
  healthStatus :: string
  scoreFactors :: "score_factor list"

text \<open>
  The savings rate of the handler, from the totals of the expenses and incomes of the
  last three months; a total is absent when the aggregate has no document.
\<close>

definition savingsRate :: "real option \<Rightarrow> real option \<Rightarrow> real" where
  "savingsRate totalExpenses totalIncome =
     (let expenses = (case totalExpenses of None \<Rightarrow> 0 | Some x \<Rightarrow> x);
          income = (case totalIncome of None \<Rightarrow> 0 | Some x \<Rightarrow> x);
          netSavings = income - expenses
      in if income > 0 then (netSavings / income) * 100 else 0)"

text \<open>
  The handler, from the goals collection and the aggregates it fetches: the two totals,
  the current month's expenses and the user's budget, and the totals per month of the
  last three months. \<open>Math.round\<close> is \<open>round\<close>. Of the response, the score, the status
  and the factors are modelled; the rounded metrics and the recommendations are not.
\<close>

definition financial_health ::
  "goal list \<Rightarrow> user_id \<Rightarrow> real option \<Rightarrow> real option \<Rightarrow> real \<Rightarrow> real \<Rightarrow> real list
     \<Rightarrow> financialHealth" where
  "financial_health goals userId totalExpenses totalIncome currentExpenses monthlyBudget
     monthlyExpenses =
     (let goalStats = getUserGoalStats goals userId;
          savingsGoals = filter (\<lambda>g. user g = userId \<and> status g = Active) goals;
          st = factor_emergency savingsGoals
                 (factor_consistency monthlyExpenses
                    (factor_goals goalStats
                       (factor_budget (getBudgetUtilization currentExpenses monthlyBudget)
                          (factor_savings (savingsRate totalExpenses totalIncome) (0, [])))))
      in \<lparr>healthScore = round (fst st),
          healthStatus = healthStatus_of (fst st),
          scoreFactors = snd st\<rparr>)"

text \<open>
  The points one factor adds, whatever the score before it: the factor run on the
  empty state.
\<close>

definition savings_points :: "real \<Rightarrow> real" where
  "savings_points rate = fst (factor_savings rate (0, []))"

definition budget_points :: "real \<Rightarrow> real" where
  "budget_points utilization = fst (factor_budget utilization (0, []))"

definition goal_points :: "(status \<Rightarrow> status_stats) \<Rightarrow> real" where
  "goal_points goalStats = fst (factor_goals goalStats (0, []))"

definition consistency_points :: "real list \<Rightarrow> real" where
  "consistency_points monthlyExpenses = fst (factor_consistency monthlyExpenses (0, []))"

definition emergency_points :: "goal list \<Rightarrow> real" where
  "emergency_points savingsGoals = fst (factor_emergency savingsGoals (0, []))"

section \<open>Concrete inputs of the queries\<close>

text \<open>Four active goals of owner 1 with the same target date, one per priority.\<close>

definition priority_goals :: "goal list" where
  "priority_goals =
     [laptop_goal\<lparr>priority := Urgent\<rparr>, laptop_goal\<lparr>priority := High\<rparr>,
      laptop_goal\<lparr>priority := Medium\<rparr>, laptop_goal\<lparr>priority := Low\<rparr>]"

text \<open>Two food expenses of 100 and 50 and a transport expense of 30, of owner 1.\<close>

definition three_expenses :: "expense list" where
  "three_expenses =
     [\<lparr>e_user = 1, e_amount = 100, e_description = ''lunch'', e_category = Food, e_date = 10\<rparr>,
      \<lparr>e_user = 1, e_amount = 50, e_description = ''snack'', e_category = Food, e_date = 20\<rparr>,
      \<lparr>e_user = 1, e_amount = 30, e_description = ''bus'', e_category = Transport,
       e_date = 30\<rparr>]"

section \<open>Auxiliary notions of the proofs\<close>

text \<open>
  The \<open>$match\<close> condition of the category breakdown, and the document it builds from
  one group.
\<close>

definition in_window :: "user_id \<Rightarrow> time \<Rightarrow> time \<Rightarrow> expense \<Rightarrow> bool" where
  "in_window u s e x \<longleftrightarrow> e_user x = u \<and> s \<le> e_date x \<and> e_date x \<le> e"

definition category_row :: "expense_category \<times> expense list \<Rightarrow> category_total" where
  "category_row = (\<lambda>(c, grp).
              \<lparr>cat_id = c, totalAmount = sum_list (map e_amount grp),
               cat_count = length grp,
               avgAmount = sum_list (map e_amount grp) / real (length grp)\<rparr>)"

text \<open>The points listed in the factors of a score state, less its score.\<close>

definition tally :: "score_state \<Rightarrow> real" where
  "tally st = sum_list (map points (snd st)) - fst st"

text \<open>
  A number format for the concrete inputs of the budget suggestions, whose categories
  and amounts do not depend on it.
\<close>

definition no_format :: "real \<Rightarrow> string" where
  "no_format x = []"

section \<open>Properties\<close>

lemma pre_save_currentAmount: "currentAmount (pre_save t g) = currentAmount g"
  by (simp add: pre_save_def Let_def)

lemma pre_save_contributions: "contributions (pre_save t g) = contributions g"
  by (simp add: pre_save_def Let_def)

lemma addContribution_contributed:
  "contributed (addContribution a n s t g) - currentAmount (addContribution a n s t g)
     = contributed g - currentAmount g"
  by (simp add: addContribution_def contributed_def pre_save_currentAmount pre_save_contributions)

lemma addContributions_contributed:
  "contributed (addContributions cs g) - currentAmount (addContributions cs g)
     = contributed g - currentAmount g"
  by (induction cs arbitrary: g) (auto simp: addContribution_contributed)

lemma post_goal_laptop:
  "post_goal 1 laptop_req 0 0 7 Map.empty = (Inr laptop_goal, [7 \<mapsto> laptop_goal])"
  by (simp add: post_goal_def laptop_req_def laptop_goal_def truthy_str_def truthy_num_def
      trim_def is_space_def pre_save_def Let_def default_milestones_def check_milestone_def)

lemma post_goal_fresh:
  assumes "post_goal u req now t gid db = (Inr g, db')"
  shows "currentAmount g = 0 \<and> contributions g = [] \<and> user g = u \<and> db' gid = Some g"
  using assms
  by (auto simp: post_goal_def Let_def pre_save_currentAmount pre_save_contributions
      pre_save_def split: if_splits)

subsection \<open>The hook, the method and the handlers, field by field\<close>

lemma pre_save_milestones:
  "milestones (pre_save t g) = map (check_milestone t (currentAmount g)) (milestones g)"
  by (simp add: pre_save_def Let_def)

lemma pre_save_autoSave: "autoSave (pre_save t g) = autoSave g"
  by (simp add: pre_save_def Let_def)

lemma check_milestone_achieved: "isAchieved m \<Longrightarrow> isAchieved (check_milestone t c m)"
  by (simp add: check_milestone_def)

lemma keeps_refl: "keeps g g"
  by (simp add: keeps_def)

lemma keeps_trans: "keeps g g' \<Longrightarrow> keeps g' g'' \<Longrightarrow> keeps g g''"
  by (simp add: keeps_def)

lemma keeps_pre_save: "keeps g (pre_save t g)"
  by (simp add: keeps_def pre_save_milestones check_milestone_achieved)

lemma addContribution_milestones:
  "milestones (addContribution a n s t g)
     = map (check_milestone t (currentAmount g + a)) (milestones g)"
  by (simp add: addContribution_def pre_save_milestones)

lemma keeps_addContribution: "keeps g (addContribution a n s t g)"
  by (simp add: keeps_def addContribution_milestones check_milestone_achieved)

lemma addContribution_currentAmount:
  "currentAmount (addContribution a n s t g) = currentAmount g + a"
  by (simp add: addContribution_def pre_save_currentAmount)

lemma addContribution_contributions:
  "contributions (addContribution a n s t g)
     = contributions g @ [\<lparr>c_amount = a, c_date = t, c_note = n, c_source = s\<rparr>]"
  by (simp add: addContribution_def pre_save_contributions)

lemma addContribution_autoSave: "autoSave (addContribution a n s t g) = autoSave g"
  by (simp add: addContribution_def pre_save_autoSave)

lemma put_fields_milestones: "milestones (put_fields req g) = milestones g"
  by (simp add: put_fields_def Let_def split: option.splits)

lemma put_fields_currentAmount: "currentAmount (put_fields req g) = currentAmount g"
  by (simp add: put_fields_def Let_def split: option.splits)

lemma findOne_Some: "findOne gid u db = Some g \<Longrightarrow> db gid = Some g"
  by (auto simp: findOne_def split: option.splits if_splits)

lemma store_keeps_refl: "store_keeps db db"
  by (auto simp: store_keeps_def keeps_refl)

lemma store_keeps_trans: "store_keeps a b \<Longrightarrow> store_keeps b c \<Longrightarrow> store_keeps a c"
  unfolding store_keeps_def by (meson keeps_trans)

lemma store_keeps_upd: "db gid = Some g \<Longrightarrow> keeps g g' \<Longrightarrow> store_keeps db (db(gid \<mapsto> g'))"
  by (auto simp: store_keeps_def keeps_refl)

lemma contribute_keeps: "store_keeps db (snd (contribute u gid req t db))"
  by (auto simp: contribute_def store_keeps_refl Let_def keeps_addContribution
      intro!: store_keeps_upd dest: findOne_Some split: option.splits)

lemma auto_save_keeps: "store_keeps db (snd (auto_save u gid now t1 t2 db))"
proof -
  have k: "keeps g (pre_save t2 ((addContribution a n s t1 g)\<lparr>autoSave := x\<rparr>))" for g a n s x
  proof -
    have "keeps (addContribution a n s t1 g) ((addContribution a n s t1 g)\<lparr>autoSave := x\<rparr>)"
      by (simp add: keeps_def)
    then show ?thesis
      by (meson keeps_trans keeps_addContribution keeps_pre_save)
  qed
  show ?thesis
    by (auto simp: auto_save_def store_keeps_refl Let_def k
        intro!: store_keeps_upd dest: findOne_Some split: option.splits)
qed

lemma put_goal_keeps:
  assumes "upd_targetAmount req = None"
  shows "store_keeps db (snd (put_goal u gid req now t db))"
proof -
  have k: "keeps g (pre_save t ((put_fields req g)\<lparr>targetDate := d\<rparr>))" for g d
  proof -
    have "keeps g ((put_fields req g)\<lparr>targetDate := d\<rparr>)"
      by (simp add: keeps_def put_fields_milestones)
    then show ?thesis
      by (meson keeps_trans keeps_pre_save)
  qed
  have k2: "keeps g (pre_save t (put_fields req g))" for g
  proof -
    have "keeps g (put_fields req g)"
      by (simp add: keeps_def put_fields_milestones)
    then show ?thesis
      by (meson keeps_trans keeps_pre_save)
  qed
  show ?thesis
    using assms
    by (auto simp: put_goal_def put_target_def put_date_def store_keeps_refl Let_def k k2
        intro!: store_keeps_upd dest: findOne_Some split: option.splits sum.splits if_splits)
qed

lemma serve_keeps:
  "\<not> is_delete r \<Longrightarrow> \<not> sets_target r \<Longrightarrow> store_keeps db (snd (serve u gid r db))"
  by (cases r) (simp_all add: contribute_keeps auto_save_keeps put_goal_keeps)

lemma run_requests_keeps:
  "\<forall>(u, gid, r) \<in> set rs. \<not> is_delete r \<and> \<not> sets_target r \<Longrightarrow>
     store_keeps db (run_requests rs db)"
proof (induction rs arbitrary: db)
  case Nil
  then show ?case by (simp add: store_keeps_refl)
next
  case (Cons x rs)
  obtain u gid r where x: "x = (u, gid, r)" by (cases x) auto
  from Cons.prems x have "store_keeps db (snd (serve u gid r db))"
    by (simp add: serve_keeps)
  moreover from Cons have "store_keeps (snd (serve u gid r db)) (run_requests rs (snd (serve u gid r db)))"
    by simp
  ultimately show ?case using x by (simp add: store_keeps_trans[of db])
qed

lemma put_goal_target:
  assumes "findOne gid u db = Some g" and "upd_targetAmount req = Some ta"
    and "put_goal u gid req now t db = (Inr g', db')"
  shows "milestones g' = map (check_milestone t (currentAmount g)) (default_milestones ta)"
  using assms
  by (auto simp: put_goal_def put_target_def put_date_def Let_def pre_save_milestones
      put_fields_currentAmount split: option.splits sum.splits if_splits)


subsection \<open>C1: contributions add up to the current amount\<close>

text \<open>
  C1. Starting from a freshly created goal, whose current amount is 0 and whose
  contribution list is empty, after any sequence of \<open>addContribution\<close> calls the amounts
  of the goal's contribution records add up to its \<open>currentAmount\<close>. In the model every
  call of \<open>addContribution\<close> succeeds, so the sequence is arbitrary.
\<close>

theorem contributions_sum_currentAmount:
  assumes "currentAmount g = 0" and "contributions g = []"
  shows "sum_list (map c_amount (contributions (addContributions cs g)))
           = currentAmount (addContributions cs g)"
proof -
  have "contributed g - currentAmount g = 0"
    using assms by (simp add: contributed_def)
  then have "contributed (addContributions cs g) - currentAmount (addContributions cs g) = 0"
    by (simp add: addContributions_contributed)
  then show ?thesis
    by (simp add: contributed_def)
qed

theorem contributions_sum_currentAmount_witness:
  "currentAmount laptop_goal = 0 \<and> contributions laptop_goal = [] \<and>
   sum_list (map c_amount (contributions
     (addContributions [(30, ''first'', Manual, 5), (45, [], Bonus, 9)] laptop_goal)))
     = currentAmount
         (addContributions [(30, ''first'', Manual, 5), (45, [], Bonus, 9)] laptop_goal) \<and>
   currentAmount
     (addContributions [(30, ''first'', Manual, 5), (45, [], Bonus, 9)] laptop_goal) = 75"
proof -
  define cs :: "(real \<times> string \<times> source \<times> time) list"
    where "cs = [(30, ''first'', Manual, 5), (45, [], Bonus, 9)]"
  have a: "currentAmount laptop_goal = 0" and b: "contributions laptop_goal = []"
    by (simp_all add: laptop_goal_def)
  have c: "currentAmount (addContributions cs laptop_goal) = 75"
    by (simp add: cs_def addContribution_def pre_save_currentAmount laptop_goal_def)
  have d: "sum_list (map c_amount (contributions (addContributions cs laptop_goal)))
             = currentAmount (addContributions cs laptop_goal)"
    by (rule contributions_sum_currentAmount [OF a b])
  show ?thesis
    using a b c d unfolding cs_def by blast
qed

subsection \<open>C4: the auto-save due check and its effect\<close>

lemma isDue_due_by_period: "isDue now a = due_by_period now a"
proof (cases "lastAutoSave a")
  case None
  then show ?thesis by (simp add: isDue_def due_by_period_def)
next
  case (Some l)
  have "(real_of_int (now - l) / (1000 * 60 * 60 * 24) \<ge> real_of_int d) = (now - l \<ge> d * day_ms)" for d
  proof -
    have "(real_of_int (now - l) / (1000 * 60 * 60 * 24) \<ge> real_of_int d)
            = (real_of_int (d * 86400000) \<le> real_of_int (now - l))"
      by (simp add: field_simps)
    also have "\<dots> = (d * 86400000 \<le> now - l)"
      by (rule of_int_le_iff)
    finally show ?thesis by (simp add: day_ms_def)
  qed
  from this[of 1] this[of 7] this[of 30] Some show ?thesis
    by (cases "frequency a") (simp_all add: isDue_def due_by_period_def Let_def)
qed

lemma saver_facts:
  "user saver_goal = 1" "enabled (autoSave saver_goal)" "as_amount (autoSave saver_goal) > 0"
  "status saver_goal = Active" "frequency (autoSave saver_goal) = Weekly"
  "lastAutoSave (autoSave saver_goal) = Some 0" "currentAmount saver_goal = 0"
  "contributions saver_goal = []" "as_amount (autoSave saver_goal) = 20"
  by (simp_all add: saver_goal_def laptop_goal_def)

text \<open>
  C4. For a stored goal of the requesting user with auto-save enabled, a per-period
  amount above 0 and status active: the due check holds if and only if \<open>lastAutoSave\<close>
  is unset or the time elapsed since it is at least 1 day (daily), 7 days (weekly) or
  30 days (monthly); with frequency weekly it fails at exactly 6 days and holds at
  exactly 7 days. When due, the handler stores a goal with exactly one more contribution,
  of the configured amount and source auto-save, with the current amount raised by that
  amount and \<open>lastAutoSave\<close> set to the instant of the check; when not due it rejects
  and the store is as before.
\<close>

theorem auto_save_when_due:
  assumes "db gid = Some g" and "user g = u"
    and "enabled (autoSave g)" and "as_amount (autoSave g) > 0" and "status g = Active"
  shows "(isDue now (autoSave g) \<longleftrightarrow>
            lastAutoSave (autoSave g) = None \<or>
            (\<exists>l. lastAutoSave (autoSave g) = Some l \<and>
                 now - l \<ge> period_days (frequency (autoSave g)) * day_ms)) \<and>
         (frequency (autoSave g) = Weekly \<and> lastAutoSave (autoSave g) = Some (now - 6 * day_ms)
            \<longrightarrow> \<not> isDue now (autoSave g)) \<and>
         (frequency (autoSave g) = Weekly \<and> lastAutoSave (autoSave g) = Some (now - 7 * day_ms)
            \<longrightarrow> isDue now (autoSave g)) \<and>
         (isDue now (autoSave g) \<longrightarrow>
            (\<exists>g'. auto_save u gid now t1 t2 db = (Inr g', db(gid \<mapsto> g')) \<and>
                  contributions g' = contributions g @
                    [\<lparr>c_amount = as_amount (autoSave g), c_date = t1,
                      c_note = ''Auto-save contribution'', c_source = AutoSaveSource\<rparr>] \<and>
                  currentAmount g' = currentAmount g + as_amount (autoSave g) \<and>
                  lastAutoSave (autoSave g') = Some now)) \<and>
         (\<not> isDue now (autoSave g) \<longrightarrow>
            auto_save u gid now t1 t2 db = (Inl (HttpError 400 ''Auto-save is not due yet.''), db))"
proof -
  have f: "findOne gid u db = Some g"
    using assms(1,2) by (simp add: findOne_def)
  have 1: "isDue now (autoSave g) \<longleftrightarrow>
            lastAutoSave (autoSave g) = None \<or>
            (\<exists>l. lastAutoSave (autoSave g) = Some l \<and>
                 now - l \<ge> period_days (frequency (autoSave g)) * day_ms)"
    by (auto simp: isDue_due_by_period due_by_period_def split: option.splits)
  have 2: "frequency (autoSave g) = Weekly \<and> lastAutoSave (autoSave g) = Some (now - 6 * day_ms)
            \<longrightarrow> \<not> isDue now (autoSave g)"
    by (simp add: isDue_due_by_period due_by_period_def day_ms_def)
  have 3: "frequency (autoSave g) = Weekly \<and> lastAutoSave (autoSave g) = Some (now - 7 * day_ms)
            \<longrightarrow> isDue now (autoSave g)"
    by (simp add: isDue_due_by_period due_by_period_def day_ms_def)
  have 4: "isDue now (autoSave g) \<longrightarrow>
            (\<exists>g'. auto_save u gid now t1 t2 db = (Inr g', db(gid \<mapsto> g')) \<and>
                  contributions g' = contributions g @
                    [\<lparr>c_amount = as_amount (autoSave g), c_date = t1,
                      c_note = ''Auto-save contribution'', c_source = AutoSaveSource\<rparr>] \<and>
                  currentAmount g' = currentAmount g + as_amount (autoSave g) \<and>
                  lastAutoSave (autoSave g') = Some now)"
    using f assms(3,4,5)
    by (simp add: auto_save_def Let_def pre_save_contributions pre_save_currentAmount
        pre_save_autoSave addContribution_contributions addContribution_currentAmount)
  have 5: "\<not> isDue now (autoSave g) \<longrightarrow>
            auto_save u gid now t1 t2 db = (Inl (HttpError 400 ''Auto-save is not due yet.''), db)"
    using f assms(3,4,5) by (simp add: auto_save_def)
  show ?thesis
    using 1 2 3 4 5 by blast
qed

theorem auto_save_when_due_witness:
  "[7 \<mapsto> saver_goal] (7::goal_id) = Some saver_goal \<and> user saver_goal = 1 \<and>
   enabled (autoSave saver_goal) \<and> as_amount (autoSave saver_goal) > 0 \<and>
   status saver_goal = Active \<and>
   isDue (7 * day_ms) (autoSave saver_goal) \<and>
   (\<exists>g'. auto_save 1 7 (7 * day_ms) (7 * day_ms + 1) (7 * day_ms + 2) [7 \<mapsto> saver_goal]
            = (Inr g', [7 \<mapsto> saver_goal](7 \<mapsto> g')) \<and>
         contributions g' =
           [\<lparr>c_amount = 20, c_date = 7 * day_ms + 1,
             c_note = ''Auto-save contribution'', c_source = AutoSaveSource\<rparr>] \<and>
         currentAmount g' = 20 \<and>
         lastAutoSave (autoSave g') = Some (7 * day_ms)) \<and>
   \<not> isDue (6 * day_ms) (autoSave saver_goal) \<and>
   auto_save 1 7 (6 * day_ms) (6 * day_ms + 1) (6 * day_ms + 2) [7 \<mapsto> saver_goal]
     = (Inl (HttpError 400 ''Auto-save is not due yet.''), [7 \<mapsto> saver_goal])"
proof -
  have h: "[7 \<mapsto> saver_goal] (7::goal_id) = Some saver_goal" by simp
  note w7 = auto_save_when_due [where db = "[7 \<mapsto> saver_goal]" and gid = 7
      and g = saver_goal and u = 1 and now = "7 * day_ms" and ?t1.0 = "7 * day_ms + 1"
      and ?t2.0 = "7 * day_ms + 2", OF h saver_facts(1-4)]
  note w6 = auto_save_when_due [where db = "[7 \<mapsto> saver_goal]" and gid = 7
      and g = saver_goal and u = 1 and now = "6 * day_ms" and ?t1.0 = "6 * day_ms + 1"
      and ?t2.0 = "6 * day_ms + 2", OF h saver_facts(1-4)]
  have d7: "isDue (7 * day_ms) (autoSave saver_goal)"
    using w7 by (simp add: saver_facts day_ms_def)
  have d6: "\<not> isDue (6 * day_ms) (autoSave saver_goal)"
    using w6 by (simp add: saver_facts day_ms_def)
  show ?thesis
    using h d7 d6 w7 w6 by (simp add: saver_facts)
qed

subsection \<open>C3: a goal that is not active rejects contributions\<close>

text \<open>
  C3. For a stored goal of the requesting user whose status is paused, completed or
  cancelled, every contribution request is rejected and the store is as before, so the
  goal's current amount, contribution list and milestone flags are unchanged; a request
  whose amount passes the amount check (present and above 0) is rejected with status 400
  and the message of the inactive goal, the InvalidState rejection.
\<close>

theorem contribute_inactive_rejected:
  assumes "db gid = Some g" and "user g = u"
    and "status g = Paused \<or> status g = Completed \<or> status g = Cancelled"
  shows "(\<exists>e. fst (contribute u gid req t db) = Inl e) \<and>
         snd (contribute u gid req t db) = db \<and>
         snd (contribute u gid req t db) gid = Some g \<and>
         (\<forall>a. cr_amount req = Some a \<and> a > 0 \<longrightarrow>
            fst (contribute u gid req t db)
              = Inl (HttpError 400 ''Cannot contribute to inactive goal.''))"
proof -
  have f: "findOne gid u db = Some g"
    using assms(1,2) by (simp add: findOne_def)
  have s: "status g \<noteq> Active"
    using assms(3) by auto
  show ?thesis
    using f s assms(1) by (auto simp: contribute_def truthy_num_def)
qed

theorem contribute_inactive_rejected_witness:
  "[7 \<mapsto> paused_goal] (7::goal_id) = Some paused_goal \<and> user paused_goal = 1 \<and>
   status paused_goal = Paused \<and>
   contribute 1 7 \<lparr>cr_amount = Some 10, cr_note = None, cr_source = None\<rparr> 5
     [7 \<mapsto> paused_goal]
     = (Inl (HttpError 400 ''Cannot contribute to inactive goal.''), [7 \<mapsto> paused_goal])"
proof -
  have h: "[7 \<mapsto> paused_goal] (7::goal_id) = Some paused_goal" by simp
  have u: "user paused_goal = 1" and s: "status paused_goal = Paused"
    by (simp_all add: paused_goal_def laptop_goal_def)
  have s': "status paused_goal = Paused \<or> status paused_goal = Completed
              \<or> status paused_goal = Cancelled"
    using s by simp
  note w = contribute_inactive_rejected [where db = "[7 \<mapsto> paused_goal]" and gid = 7
      and g = paused_goal and u = 1 and t = 5
      and req = "\<lparr>cr_amount = Some 10, cr_note = None, cr_source = None\<rparr>", OF h u s']
  show ?thesis
    using h u s w by (simp add: prod_eq_iff)
qed

subsection \<open>C2: achieved milestones under later requests\<close>

lemma laptop_goal_30_milestones:
  "map isAchieved (milestones laptop_goal_30) = [True, False, False, False]"
  by (simp add: laptop_goal_30_def addContribution_milestones laptop_goal_def
      default_milestones_def check_milestone_def)

lemma laptop_goal_30_facts:
  "user laptop_goal_30 = 1" "currentAmount laptop_goal_30 = 30"
  "length (milestones laptop_goal_30) = 4" "isAchieved (milestones laptop_goal_30 ! 0)"
  by (simp_all add: laptop_goal_30_def addContribution_milestones addContribution_currentAmount
      laptop_goal_def default_milestones_def check_milestone_def addContribution_def pre_save_def)

lemma put_raise:
  "\<exists>g' db'. put_goal 1 7 raise_target_req 10 11 laptop_db = (Inr g', db')"
  by (simp add: laptop_db_def put_goal_def findOne_def laptop_goal_30_facts put_target_def
      put_date_def Let_def raise_target_req_def)

text \<open>
  C2, as the code has it. Under every sequence of contribution, auto-save and update
  requests none of which carries a target amount (and none of which deletes), each
  stored goal keeps its milestones, and a milestone whose achieved flag is true keeps
  it true. An update that carries a target amount and is accepted replaces the milestone
  list by the four default milestones of the new target, and each of them is achieved
  exactly when the current amount has reached its new threshold.
\<close>

theorem achieved_flag_kept:
  "((\<forall>(u, gid, r) \<in> set rs. \<not> is_delete r \<and> \<not> sets_target r) \<and>
    db k = Some g \<and> i < length (milestones g) \<and> isAchieved (milestones g ! i)
      \<longrightarrow> (\<exists>g'. run_requests rs db k = Some g' \<and>
                length (milestones g') = length (milestones g) \<and>
                isAchieved (milestones g' ! i)))
   \<and>
   (db gid = Some g \<and> user g = u \<and> upd_targetAmount req = Some ta \<and>
    put_goal u gid req now t db = (Inr g', db')
      \<longrightarrow> db' gid = Some g' \<and>
          map percentage (milestones g') = [25, 50, 75, 100] \<and>
          map m_amount (milestones g') = [ta * 0.25, ta * 0.5, ta * 0.75, ta] \<and>
          map isAchieved (milestones g')
            = map (\<lambda>a. currentAmount g \<ge> a) [ta * 0.25, ta * 0.5, ta * 0.75, ta])"
proof (intro conjI impI)
  assume a: "(\<forall>(u, gid, r) \<in> set rs. \<not> is_delete r \<and> \<not> sets_target r) \<and>
    db k = Some g \<and> i < length (milestones g) \<and> isAchieved (milestones g ! i)"
  then have "store_keeps db (run_requests rs db)"
    by (simp add: run_requests_keeps)
  with a show "\<exists>g'. run_requests rs db k = Some g' \<and>
                length (milestones g') = length (milestones g) \<and>
                isAchieved (milestones g' ! i)"
    unfolding store_keeps_def keeps_def by blast
next
  assume b: "db gid = Some g \<and> user g = u \<and> upd_targetAmount req = Some ta \<and>
    put_goal u gid req now t db = (Inr g', db')"
  then have f: "findOne gid u db = Some g"
    by (simp add: findOne_def)
  from b f have m: "milestones g' = map (check_milestone t (currentAmount g)) (default_milestones ta)"
    using put_goal_target by blast
  from b f show "db' gid = Some g'"
    by (auto simp: put_goal_def Let_def split: sum.splits)
  from m show "map percentage (milestones g') = [25, 50, 75, 100]"
    by (simp add: default_milestones_def check_milestone_def)
  from m show "map m_amount (milestones g') = [ta * 0.25, ta * 0.5, ta * 0.75, ta]"
    by (simp add: default_milestones_def check_milestone_def)
  from m show "map isAchieved (milestones g')
            = map (\<lambda>a. currentAmount g \<ge> a) [ta * 0.25, ta * 0.5, ta * 0.75, ta]"
    by (simp add: default_milestones_def check_milestone_def)
qed

theorem achieved_flag_kept_witness:
  "map (\<lambda>(u, gid, r). is_delete r \<or> sets_target r) example_requests = [False, False] \<and>
   laptop_db 7 = Some laptop_goal_30 \<and>
   0 < length (milestones laptop_goal_30) \<and> isAchieved (milestones laptop_goal_30 ! 0) \<and>
   (\<exists>g'. run_requests example_requests laptop_db 7 = Some g' \<and>
         length (milestones g') = 4 \<and> isAchieved (milestones g' ! 0)) \<and>
   user laptop_goal_30 = 1 \<and> upd_targetAmount raise_target_req = Some 1000 \<and>
   (\<exists>g' db'. put_goal 1 7 raise_target_req 10 11 laptop_db = (Inr g', db') \<and>
         db' 7 = Some g' \<and>
         map m_amount (milestones g') = [250, 500, 750, 1000] \<and>
         map isAchieved (milestones g') = [False, False, False, False])"
proof -
  have h1: "\<forall>(u, gid, r) \<in> set example_requests. \<not> is_delete r \<and> \<not> sets_target r"
    by (simp add: example_requests_def rename_req_def)
  have h2: "laptop_db 7 = Some laptop_goal_30"
    by (simp add: laptop_db_def)
  have h3: "0 < length (milestones laptop_goal_30)"
    by (simp add: laptop_goal_30_facts)
  have h4: "isAchieved (milestones laptop_goal_30 ! 0)"
    by (rule laptop_goal_30_facts)
  have h5: "user laptop_goal_30 = 1"
    by (rule laptop_goal_30_facts)
  have h6: "upd_targetAmount raise_target_req = Some 1000"
    by (simp add: raise_target_req_def)
  obtain g' db' where p: "put_goal 1 7 raise_target_req 10 11 laptop_db = (Inr g', db')"
    using put_raise by blast
  note w = achieved_flag_kept [where rs = example_requests and db = laptop_db and k = 7
      and g = laptop_goal_30 and i = 0 and gid = 7 and u = 1 and req = raise_target_req
      and ta = 1000 and now = 10 and t = 11 and g' = g' and db' = db']
  from w h1 h2 h3 h4 have "\<exists>g'. run_requests example_requests laptop_db 7 = Some g' \<and>
         length (milestones g') = length (milestones laptop_goal_30) \<and>
         isAchieved (milestones g' ! 0)"
    by blast
  then have c1: "\<exists>g'. run_requests example_requests laptop_db 7 = Some g' \<and>
         length (milestones g') = 4 \<and> isAchieved (milestones g' ! 0)"
    by (simp only: laptop_goal_30_facts)
  from w h2 h5 h6 p have "db' 7 = Some g' \<and>
          map percentage (milestones g') = [25, 50, 75, 100] \<and>
          map m_amount (milestones g') = [1000 * 0.25, 1000 * 0.5, 1000 * 0.75, 1000] \<and>
          map isAchieved (milestones g')
            = map (\<lambda>a. currentAmount laptop_goal_30 \<ge> a)
                [1000 * 0.25, 1000 * 0.5, 1000 * 0.75, 1000]"
    by blast
  then have c2: "db' 7 = Some g' \<and>
         map m_amount (milestones g') = [250, 500, 750, 1000] \<and>
         map isAchieved (milestones g') = [False, False, False, False]"
    by (simp add: laptop_goal_30_facts)
  from p c2 have c3: "\<exists>g' db'. put_goal 1 7 raise_target_req 10 11 laptop_db = (Inr g', db') \<and>
         db' 7 = Some g' \<and>
         map m_amount (milestones g') = [250, 500, 750, 1000] \<and>
         map isAchieved (milestones g') = [False, False, False, False]"
    by (intro exI [of _ g'] exI [of _ db']) simp
  have h0: "map (\<lambda>(u, gid, r). is_delete r \<or> sets_target r) example_requests = [False, False]"
    by (simp add: example_requests_def rename_req_def)
  show ?thesis
    using h0 h2 h3 h4 h5 h6 c1 c3 by (intro conjI)
qed

text \<open>
  C2 as stated fails on an update that raises the target: the goal of 100 with 30
  contributed has its 25 percent milestone achieved; after the target is set to 1000
  the stored goal's first milestone is not achieved.
\<close>

theorem raised_target_resets_flag:
  "isAchieved (milestones laptop_goal_30 ! 0) \<and>
   \<not> isAchieved
       (milestones (the (snd (put_goal 1 7 raise_target_req 10 11 laptop_db) 7)) ! 0)"
  by (simp add: laptop_db_def put_goal_def findOne_def put_target_def put_date_def raise_target_req_def
      put_fields_def truthy_str_def Let_def pre_save_milestones default_milestones_def
      check_milestone_def laptop_goal_30_facts put_fields_currentAmount)

subsection \<open>C5: the budget status\<close>

text \<open>
  C5, as the code has it. For every spending, budget, day of the month and number of
  days in the month, the budget status is one of the four labels, chosen by the first
  rule that matches: over-budget if the utilization is above 100, else warning if it is
  above 80, else projected-overspend if the projected monthly total is above the budget,
  else on-track. So a utilization of 85 gives warning and one of 105 gives over-budget;
  a utilization of 60 with a projection above the budget gives projected-overspend; and
  a utilization of 50 gives on-track when the projection is not above the budget.
\<close>

theorem budget_status_rules:
  "budgetStatus s b d n \<in> {''over-budget'', ''warning'', ''projected-overspend'', ''on-track''} \<and>
   (budgetStatus s b d n = ''over-budget'' \<longleftrightarrow> budgetUtilization s b > 100) \<and>
   (budgetStatus s b d n = ''warning'' \<longleftrightarrow>
      \<not> budgetUtilization s b > 100 \<and> budgetUtilization s b > 80) \<and>
   (budgetStatus s b d n = ''projected-overspend'' \<longleftrightarrow>
      \<not> budgetUtilization s b > 100 \<and> \<not> budgetUtilization s b > 80 \<and>
      projectedMonthlyTotal s d n > b) \<and>
   (budgetStatus s b d n = ''on-track'' \<longleftrightarrow>
      \<not> budgetUtilization s b > 100 \<and> \<not> budgetUtilization s b > 80 \<and>
      \<not> projectedMonthlyTotal s d n > b) \<and>
   (budgetUtilization s b = 50 \<and> \<not> projectedMonthlyTotal s d n > b
      \<longrightarrow> budgetStatus s b d n = ''on-track'') \<and>
   (budgetUtilization s b = 85 \<longrightarrow> budgetStatus s b d n = ''warning'') \<and>
   (budgetUtilization s b = 105 \<longrightarrow> budgetStatus s b d n = ''over-budget'') \<and>
   (budgetUtilization s b = 60 \<and> projectedMonthlyTotal s d n > b
      \<longrightarrow> budgetStatus s b d n = ''projected-overspend'')"
  by (simp add: budgetStatus_def)

theorem budget_status_rules_witness:
  "budgetUtilization 50 100 = 50 \<and> \<not> projectedMonthlyTotal 50 15 30 > 100 \<and>
   budgetStatus 50 100 15 30 = ''on-track'' \<and>
   budgetUtilization 85 100 = 85 \<and> budgetStatus 85 100 15 30 = ''warning'' \<and>
   budgetUtilization 105 100 = 105 \<and> budgetStatus 105 100 15 30 = ''over-budget'' \<and>
   budgetUtilization 60 100 = 60 \<and> projectedMonthlyTotal 60 15 30 > 100 \<and>
   budgetStatus 60 100 15 30 = ''projected-overspend''"
proof -
  have u: "budgetUtilization 50 100 = 50" "budgetUtilization 85 100 = 85"
    "budgetUtilization 105 100 = 105" "budgetUtilization 60 100 = 60"
    by (simp_all add: budgetUtilization_def)
  have p: "\<not> projectedMonthlyTotal 50 15 30 > 100" "projectedMonthlyTotal 60 15 30 > 100"
    by (simp_all add: projectedMonthlyTotal_def dailyAverage_def)
  show ?thesis
    using u p budget_status_rules [of 50 100 15 30] budget_status_rules [of 85 100 15 30]
      budget_status_rules [of 105 100 15 30] budget_status_rules [of 60 100 15 30]
    by simp
qed

text \<open>
  C5 as stated fails where it lets a utilization of 50 alone give on-track: on the
  first day of a month of 30 days, 50 spent of a budget of 100 projects to 1500, and
  the status is projected-overspend.
\<close>

theorem half_used_projected_overspend:
  "budgetUtilization 50 100 = 50 \<and> budgetStatus 50 100 1 30 = ''projected-overspend'' \<and>
   budgetStatus 50 100 1 30 \<noteq> ''on-track''"
  by (simp add: budgetStatus_def budgetUtilization_def projectedMonthlyTotal_def dailyAverage_def)

subsection \<open>C7: the category budget suggestions\<close>

text \<open>
  C7, as the code has it. \<open>generateBudgetSuggestions\<close> returns the fixed allocation of
  the monthly budget (food 35, transport 15, entertainment 20, education 15, other 15
  percent), followed by the general tips entry, if and only if the budget is above 0;
  otherwise it returns the advisory entry to set a budget, followed by the same tips
  entry, and no entry of a category. The budget analysis computes the same allocation
  as \<open>suggestedCategoryBudgets\<close> for every budget, 0 included.
\<close>

theorem budget_suggestions_by_budget:
  "(b > 0 \<longrightarrow>
      map (\<lambda>s. (s_category s, suggestedAmount s)) (generateBudgetSuggestions fmt str b)
        = [(''food'', b * 0.35), (''transport'', b * 0.15), (''entertainment'', b * 0.20),
           (''education'', b * 0.15), (''other'', b * 0.15), (''tips'', 0)]) \<and>
   (\<not> b > 0 \<longrightarrow>
      generateBudgetSuggestions fmt str b
        = [\<lparr>s_category = ''general'', suggestedAmount = 0,
            s_description =
              ''Set a monthly budget to get personalized category-wise suggestions''\<rparr>,
           \<lparr>s_category = ''tips'', suggestedAmount = 0,
            s_description = ''Use the 50/30/20 rule: 50% needs, 30% wants, 20% savings''\<rparr>]) \<and>
   ((\<exists>s \<in> set (generateBudgetSuggestions fmt str b).
       s_category s \<in> {''food'', ''transport'', ''entertainment'', ''education'', ''other''})
      \<longleftrightarrow> b > 0) \<and>
   suggestedCategoryBudgets b
     = \<lparr>food = b * 0.35, transport = b * 0.15, entertainment = b * 0.20,
        education = b * 0.15, other = b * 0.15\<rparr>"
  by (simp add: generateBudgetSuggestions_def studentBudgetAllocation_def
      suggestedCategoryBudgets_def)

theorem budget_suggestions_by_budget_witness:
  "(1000::real) > 0 \<and>
   map (\<lambda>s. (s_category s, suggestedAmount s))
     (generateBudgetSuggestions no_format no_format 1000)
     = [(''food'', 350), (''transport'', 150), (''entertainment'', 200),
        (''education'', 150), (''other'', 150), (''tips'', 0)] \<and>
   \<not> (0::real) > 0 \<and>
   map s_category (generateBudgetSuggestions no_format no_format 0) = [''general'', ''tips'']"
proof -
  have a: "(1000::real) > 0" and b: "\<not> (0::real) > 0"
    by simp_all
  show ?thesis
    using a b budget_suggestions_by_budget [of 1000 no_format no_format]
      budget_suggestions_by_budget [of 0 no_format no_format]
    by simp
qed

text \<open>
  C7 as stated fails for a budget of 0: the suggestions are two entries, the advisory
  and the tips, and the budget analysis still returns an allocation, of zeros.
\<close>

theorem unset_budget_suggestions:
  "length (generateBudgetSuggestions no_format no_format 0) = 2 \<and>
   map s_category (generateBudgetSuggestions no_format no_format 0) = [''general'', ''tips''] \<and>
   suggestedCategoryBudgets 0
     = \<lparr>food = 0, transport = 0, entertainment = 0, education = 0, other = 0\<rparr>"
  by (simp add: generateBudgetSuggestions_def suggestedCategoryBudgets_def)

subsection \<open>C10: the statistics per status\<close>

lemma fold_update_at:
  assumes "\<forall>x \<in> set xs. k x = s \<longrightarrow> h x = v" and "s \<notin> k ` set xs \<longrightarrow> r0 s = v"
  shows "fold (\<lambda>x r. r(k x := h x)) xs r0 s = v"
  using assms
proof (induction xs rule: rev_induct)
  case Nil
  then show ?case by simp
next
  case (snoc x xs)
  show ?case
  proof (cases "k x = s")
    case True
    with snoc.prems show ?thesis by simp
  next
    case False
    with snoc show ?thesis by auto
  qed
qed

lemma getUserGoalStats_eq:
  "getUserGoalStats goals u s =
     \<lparr>count = length (filter (\<lambda>g. user g = u \<and> status g = s) goals),
      totalTarget = sum_list (map targetAmount (filter (\<lambda>g. user g = u \<and> status g = s) goals)),
      totalCurrent = sum_list (map currentAmount (filter (\<lambda>g. user g = u \<and> status g = s) goals))\<rparr>"
proof -
  define ys where "ys = filter (\<lambda>g. user g = u) goals"
  have f: "filter (\<lambda>g. user g = u \<and> status g = s) goals = filter (\<lambda>g. status g = s) ys"
    by (simp add: ys_def conj_commute)
  have e: "s \<notin> status ` set ys \<Longrightarrow> filter (\<lambda>g. status g = s) ys = []"
    by (auto simp: filter_empty_conv)
  show ?thesis
    unfolding getUserGoalStats_def Let_def f ys_def[symmetric]
    by (rule fold_update_at) (auto simp: group_by_def e image_iff)
qed

text \<open>
  C10. For every owner and each of the four statuses, the statistics hold an entry whose
  count, total target and total current amount are the number of that owner's goals in
  that status and the sums of their target and current amounts; a status in which the
  owner has no goal has the entry of zeros.
\<close>

theorem goal_stats_per_status:
  "getUserGoalStats goals u s =
     \<lparr>count = length (filter (\<lambda>g. user g = u \<and> status g = s) goals),
      totalTarget =
        sum_list (map targetAmount (filter (\<lambda>g. user g = u \<and> status g = s) goals)),
      totalCurrent =
        sum_list (map currentAmount (filter (\<lambda>g. user g = u \<and> status g = s) goals))\<rparr> \<and>
   ((\<forall>g \<in> set goals. user g = u \<longrightarrow> status g \<noteq> s) \<longrightarrow>
      getUserGoalStats goals u s = \<lparr>count = 0, totalTarget = 0, totalCurrent = 0\<rparr>)"
proof -
  have "filter (\<lambda>g. user g = u \<and> status g = s) goals = []"
    if "\<forall>g \<in> set goals. user g = u \<longrightarrow> status g \<noteq> s"
    using that by (auto simp: filter_empty_conv)
  then show ?thesis
    by (simp add: getUserGoalStats_eq)
qed

theorem goal_stats_per_status_witness:
  "map (\<lambda>g. (user g, status g)) [laptop_goal_30, paused_goal] = [(1, Active), (1, Paused)] \<and>
   getUserGoalStats [laptop_goal_30, paused_goal] 1 Completed
     = \<lparr>count = 0, totalTarget = 0, totalCurrent = 0\<rparr> \<and>
   getUserGoalStats [laptop_goal_30, paused_goal] 1 Active
     = \<lparr>count = 1, totalTarget = 100, totalCurrent = 30\<rparr> \<and>
   getUserGoalStats [laptop_goal_30, paused_goal] 1 Paused
     = \<lparr>count = 1, totalTarget = 100, totalCurrent = 0\<rparr>"
proof -
  have f: "user laptop_goal_30 = 1" "status laptop_goal_30 = Active"
    "targetAmount laptop_goal_30 = 100" "currentAmount laptop_goal_30 = 30"
    "user paused_goal = 1" "status paused_goal = Paused"
    "targetAmount paused_goal = 100" "currentAmount paused_goal = 0"
    by (simp_all add: laptop_goal_30_def addContribution_def pre_save_def paused_goal_def
        laptop_goal_def)
  have h: "\<forall>g \<in> set [laptop_goal_30, paused_goal]. user g = 1 \<longrightarrow> status g \<noteq> Completed"
    by (simp add: f)
  have m: "map (\<lambda>g. (user g, status g)) [laptop_goal_30, paused_goal]
             = [(1, Active), (1, Paused)]"
    by (simp add: f)
  show ?thesis
    using h m goal_stats_per_status [of "[laptop_goal_30, paused_goal]" 1 Completed]
      goal_stats_per_status [of "[laptop_goal_30, paused_goal]" 1 Active]
      goal_stats_per_status [of "[laptop_goal_30, paused_goal]" 1 Paused]
    by (simp add: f)
qed

subsection \<open>C8: the category breakdown\<close>

lemma group_by_keys: "map fst (group_by key xs) = remdups (map key xs)"
  by (simp add: group_by_def comp_def)

lemma group_by_member:
  "(k, grp) \<in> set (group_by key xs) \<longleftrightarrow> k \<in> key ` set xs \<and> grp = filter (\<lambda>x. key x = k) xs"
  by (auto simp: group_by_def)

lemma getCategoryWiseExpenses_alt:
  "getCategoryWiseExpenses es u s e
     = sort_key (\<lambda>r. - totalAmount r)
         (map category_row (group_by e_category (filter (in_window u s e) es)))"
  by (simp add: getCategoryWiseExpenses_def category_row_def in_window_def[abs_def])

lemma cat_id_rows:
  "map cat_id (map category_row (group_by key xs)) = remdups (map key xs)"
  by (simp add: group_by_def comp_def category_row_def)

lemma distinct_map_sort_key:
  "distinct (map f (sort_key k xs)) = distinct (map f xs)"
  by (simp add: distinct_map)

lemma breakdown_distinct: "distinct (map cat_id (getCategoryWiseExpenses es u s e))"
  unfolding getCategoryWiseExpenses_alt distinct_map_sort_key cat_id_rows by simp

lemma breakdown_keys:
  "set (map cat_id (getCategoryWiseExpenses es u s e))
     = e_category ` set (filter (in_window u s e) es)"
proof -
  have "set (map cat_id (getCategoryWiseExpenses es u s e))
          = set (map cat_id (map category_row (group_by e_category (filter (in_window u s e) es))))"
    unfolding getCategoryWiseExpenses_alt by (simp only: set_map set_sort)
  then show ?thesis
    unfolding cat_id_rows by simp
qed

lemma breakdown_rows:
  assumes "r \<in> set (getCategoryWiseExpenses es u s e)"
  shows "totalAmount r
           = sum_list (map e_amount (filter (\<lambda>x. e_category x = cat_id r) (filter (in_window u s e) es)))
         \<and> cat_count r = length (filter (\<lambda>x. e_category x = cat_id r) (filter (in_window u s e) es))
         \<and> cat_count r > 0
         \<and> avgAmount r = totalAmount r / real (cat_count r)"
proof -
  from assms obtain c grp where
    g: "(c, grp) \<in> set (group_by e_category (filter (in_window u s e) es))"
    and r: "r = category_row (c, grp)"
    unfolding getCategoryWiseExpenses_alt by auto
  from g have c: "c \<in> e_category ` set (filter (in_window u s e) es)"
    and grp: "grp = filter (\<lambda>x. e_category x = c) (filter (in_window u s e) es)"
    by (simp_all add: group_by_member)
  from c have "grp \<noteq> []"
    unfolding grp by (auto simp: filter_empty_conv)
  with r grp show ?thesis
    by (simp add: category_row_def)
qed

lemma breakdown_sorted:
  "sorted_wrt (\<lambda>a b. totalAmount a \<ge> totalAmount b) (getCategoryWiseExpenses es u s e)"
proof -
  have "sorted (map (\<lambda>r. - totalAmount r) (getCategoryWiseExpenses es u s e))"
    unfolding getCategoryWiseExpenses_alt by (rule sorted_sort_key)
  then show ?thesis
    by (simp add: sorted_map)
qed


lemma three_expenses_breakdown:
  "getCategoryWiseExpenses three_expenses 1 0 100
     = [\<lparr>cat_id = Food, totalAmount = 150, cat_count = 2, avgAmount = 75\<rparr>,
        \<lparr>cat_id = Transport, totalAmount = 30, cat_count = 1, avgAmount = 30\<rparr>]"
  by (simp add: getCategoryWiseExpenses_def three_expenses_def group_by_def)

lemma three_expenses_breakdown_rev:
  "getCategoryWiseExpenses (rev three_expenses) 1 0 100
     = [\<lparr>cat_id = Food, totalAmount = 150, cat_count = 2, avgAmount = 75\<rparr>,
        \<lparr>cat_id = Transport, totalAmount = 30, cat_count = 1, avgAmount = 30\<rparr>]"
  by (simp add: getCategoryWiseExpenses_def three_expenses_def group_by_def)

text \<open>
  C8. For every list of expense records, owner and window, the category breakdown has
  one entry per category that occurs among the owner's records in the window; the
  entry's total is the sum of the amounts of those records of the category, its count
  their number, and its average the total divided by the count; the entries are in
  descending order of total. Two food expenses of 100 and 50 and a transport expense of
  30 give the entries food 150, 2, 75 and transport 30, 1, 30, in that order, whichever
  way round the records are stored.
\<close>

theorem category_breakdown:
  "distinct (map cat_id (getCategoryWiseExpenses es u s e)) \<and>
   set (map cat_id (getCategoryWiseExpenses es u s e))
     = e_category ` {x \<in> set es. e_user x = u \<and> s \<le> e_date x \<and> e_date x \<le> e} \<and>
   (\<forall>r \<in> set (getCategoryWiseExpenses es u s e).
      totalAmount r
        = sum_list (map e_amount
            (filter (\<lambda>x. e_category x = cat_id r \<and> e_user x = u \<and> s \<le> e_date x \<and> e_date x \<le> e) es)) \<and>
      cat_count r
        = length
            (filter (\<lambda>x. e_category x = cat_id r \<and> e_user x = u \<and> s \<le> e_date x \<and> e_date x \<le> e) es) \<and>
      cat_count r > 0 \<and>
      avgAmount r = totalAmount r / real (cat_count r)) \<and>
   sorted_wrt (\<lambda>a b. totalAmount a \<ge> totalAmount b) (getCategoryWiseExpenses es u s e) \<and>
   getCategoryWiseExpenses three_expenses 1 0 100
     = [\<lparr>cat_id = Food, totalAmount = 150, cat_count = 2, avgAmount = 75\<rparr>,
        \<lparr>cat_id = Transport, totalAmount = 30, cat_count = 1, avgAmount = 30\<rparr>] \<and>
   getCategoryWiseExpenses (rev three_expenses) 1 0 100
     = [\<lparr>cat_id = Food, totalAmount = 150, cat_count = 2, avgAmount = 75\<rparr>,
        \<lparr>cat_id = Transport, totalAmount = 30, cat_count = 1, avgAmount = 30\<rparr>]"
proof -
  have w: "filter (\<lambda>x. e_category x = c \<and> e_user x = u \<and> s \<le> e_date x \<and> e_date x \<le> e) es
             = filter (\<lambda>x. e_category x = c) (filter (in_window u s e) es)" for c
    by (simp add: in_window_def conj_commute conj_left_commute)
  have k: "{x \<in> set es. e_user x = u \<and> s \<le> e_date x \<and> e_date x \<le> e}
             = set (filter (in_window u s e) es)"
    by (auto simp: in_window_def)
  show ?thesis
    unfolding w k
    using breakdown_distinct [of es u s e] breakdown_keys [of es u s e]
      breakdown_rows [of _ es u s e] breakdown_sorted [of es u s e]
      three_expenses_breakdown three_expenses_breakdown_rev
    by blast
qed

theorem category_breakdown_witness:
  "map cat_id (getCategoryWiseExpenses three_expenses 1 0 100) = [Food, Transport] \<and>
   map totalAmount (getCategoryWiseExpenses three_expenses 1 0 100) = [150, 30] \<and>
   map cat_count (getCategoryWiseExpenses three_expenses 1 0 100) = [2, 1] \<and>
   map (\<lambda>r. avgAmount r = totalAmount r / real (cat_count r))
     (getCategoryWiseExpenses three_expenses 1 0 100) = [True, True]"
proof -
  note w = category_breakdown [of three_expenses 1 0 100]
  from w have a: "\<forall>r \<in> set (getCategoryWiseExpenses three_expenses 1 0 100).
      cat_count r > 0 \<and> avgAmount r = totalAmount r / real (cat_count r)"
    by blast
  from w have b: "getCategoryWiseExpenses three_expenses 1 0 100
     = [\<lparr>cat_id = Food, totalAmount = 150, cat_count = 2, avgAmount = 75\<rparr>,
        \<lparr>cat_id = Transport, totalAmount = 30, cat_count = 1, avgAmount = 30\<rparr>]"
    by blast
  have c: "map cat_id (getCategoryWiseExpenses three_expenses 1 0 100) = [Food, Transport]"
    "map totalAmount (getCategoryWiseExpenses three_expenses 1 0 100) = [150, 30]"
    "map cat_count (getCategoryWiseExpenses three_expenses 1 0 100) = [2, 1]"
    unfolding b by simp_all
  from a have d: "map (\<lambda>r. avgAmount r = totalAmount r / real (cat_count r))
     (getCategoryWiseExpenses three_expenses 1 0 100) = [True, True]"
    unfolding b by simp
  from c d show ?thesis
    by blast
qed

subsection \<open>C9: the active goals by priority\<close>

lemma getGoalsByPriority_set:
  "set (getGoalsByPriority goals u) = {g \<in> set goals. user g = u \<and> status g = Active}"
  by (auto simp: getGoalsByPriority_def)

lemma getGoalsByPriority_sorted:
  "sorted (map (\<lambda>g. (priority_name (priority g), targetDate g)) (getGoalsByPriority goals u))"
  unfolding getGoalsByPriority_def by (rule sorted_sort_key)

text \<open>
  C9 on four active goals of one owner with the same target date, stored in the order
  urgent, high, medium, low: the helper returns them in the order high, low, medium,
  urgent, the ascending order of the priority strings, where the claim has urgent
  before high before medium before low.
\<close>

theorem goals_by_priority_alphabetical:
  "map priority (getGoalsByPriority priority_goals 1) = [High, Low, Medium, Urgent]"
  by (simp add: getGoalsByPriority_def priority_goals_def laptop_goal_def less_eq_char_def
      less_char_def)

subsection \<open>C6: the financial health score\<close>

lemma award_fst: "fst (award p f s st) = fst st + p"
  by (simp add: award_def)

lemma remark_fst: "fst (remark f s st) = fst st"
  by (simp add: remark_def)

lemma award_tally: "tally (award p f s st) = tally st"
  by (simp add: award_def tally_def)

lemma remark_tally: "tally (remark f s st) = tally st"
  by (simp add: remark_def tally_def)

lemma factor_savings_fst: "fst (factor_savings x st) = fst st + savings_points x"
  by (simp add: factor_savings_def savings_points_def award_fst remark_fst)

lemma factor_budget_fst: "fst (factor_budget x st) = fst st + budget_points x"
  by (simp add: factor_budget_def budget_points_def award_fst remark_fst)

lemma factor_goals_fst: "fst (factor_goals x st) = fst st + goal_points x"
  by (simp add: factor_goals_def goal_points_def award_fst remark_fst Let_def)

lemma factor_consistency_fst: "fst (factor_consistency x st) = fst st + consistency_points x"
  by (simp add: factor_consistency_def consistency_points_def award_fst)

lemma factor_emergency_fst: "fst (factor_emergency x st) = fst st + emergency_points x"
  by (simp add: factor_emergency_def emergency_points_def award_fst remark_fst
      split: option.splits)

lemma factor_savings_tally: "tally (factor_savings x st) = tally st"
  by (simp add: factor_savings_def award_tally remark_tally)

lemma factor_budget_tally: "tally (factor_budget x st) = tally st"
  by (simp add: factor_budget_def award_tally remark_tally)

lemma factor_goals_tally: "tally (factor_goals x st) = tally st"
  by (simp add: factor_goals_def award_tally remark_tally Let_def)

lemma factor_consistency_tally: "tally (factor_consistency x st) = tally st"
  by (simp add: factor_consistency_def award_tally)

lemma factor_emergency_tally: "tally (factor_emergency x st) = tally st"
  by (simp add: factor_emergency_def award_tally remark_tally split: option.splits)

lemma savings_points_cases: "savings_points x \<in> {0, 10, 20, 30}"
  by (simp add: savings_points_def factor_savings_def award_def remark_def)

lemma budget_points_cases: "budget_points x \<in> {0, 5, 15, 25}"
  by (simp add: budget_points_def factor_budget_def award_def remark_def)

lemma goal_points_cases: "goal_points x \<in> {0, 10, 15, 20}"
  by (simp add: goal_points_def factor_goals_def award_def remark_def Let_def)

lemma consistency_points_cases: "consistency_points x \<in> {0, 5, 10, 15}"
  by (simp add: consistency_points_def factor_consistency_def award_def)

lemma emergency_points_cases: "emergency_points x \<in> {0, 5, 10}"
  by (simp add: emergency_points_def factor_emergency_def award_def remark_def
      split: option.splits)

lemma financial_health_score:
  "fst (factor_emergency sg (factor_consistency me (factor_goals gs
          (factor_budget bu (factor_savings sr (0, []))))))
     = savings_points sr + budget_points bu + goal_points gs + consistency_points me
         + emergency_points sg"
  by (simp add: factor_emergency_fst factor_consistency_fst factor_goals_fst
      factor_budget_fst factor_savings_fst)

lemma financial_health_tally:
  "sum_list (map points (snd (factor_emergency sg (factor_consistency me (factor_goals gs
          (factor_budget bu (factor_savings sr (0, [])))))))) 
     = fst (factor_emergency sg (factor_consistency me (factor_goals gs
          (factor_budget bu (factor_savings sr (0, []))))))"
proof -
  have "tally (factor_emergency sg (factor_consistency me (factor_goals gs
          (factor_budget bu (factor_savings sr (0, [])))))) = tally (0, [])"
    by (simp only: factor_emergency_tally factor_consistency_tally factor_goals_tally
        factor_budget_tally factor_savings_tally)
  then show ?thesis
    by (simp add: tally_def)
qed

lemma points_as_int:
  assumes "p \<in> real_of_int ` S" and "\<forall>n \<in> S. 0 \<le> n \<and> n \<le> m"
  shows "\<exists>n::int. p = real_of_int n \<and> 0 \<le> n \<and> n \<le> m"
  using assms by blast

lemma savings_points_int: "\<exists>n::int. savings_points x = real_of_int n \<and> 0 \<le> n \<and> n \<le> 30"
proof (rule points_as_int)
  show "savings_points x \<in> real_of_int ` {0, 10, 20, 30}"
    using savings_points_cases [of x] by simp
qed simp

lemma budget_points_int: "\<exists>n::int. budget_points x = real_of_int n \<and> 0 \<le> n \<and> n \<le> 25"
proof (rule points_as_int)
  show "budget_points x \<in> real_of_int ` {0, 5, 15, 25}"
    using budget_points_cases [of x] by simp
qed simp

lemma goal_points_int: "\<exists>n::int. goal_points x = real_of_int n \<and> 0 \<le> n \<and> n \<le> 20"
proof (rule points_as_int)
  show "goal_points x \<in> real_of_int ` {0, 10, 15, 20}"
    using goal_points_cases [of x] by simp
qed simp

lemma consistency_points_int:
  "\<exists>n::int. consistency_points x = real_of_int n \<and> 0 \<le> n \<and> n \<le> 15"
proof (rule points_as_int)
  show "consistency_points x \<in> real_of_int ` {0, 5, 10, 15}"
    using consistency_points_cases [of x] by simp
qed simp

lemma emergency_points_int:
  "\<exists>n::int. emergency_points x = real_of_int n \<and> 0 \<le> n \<and> n \<le> 10"
proof (rule points_as_int)
  show "emergency_points x \<in> real_of_int ` {0, 5, 10}"
    using emergency_points_cases [of x] by simp
qed simp

lemma points_total:
  "\<exists>n::int. savings_points sr + budget_points bu + goal_points gs + consistency_points me
       + emergency_points sg = real_of_int n \<and> 0 \<le> n \<and> n \<le> 100"
proof -
  obtain a :: int where a: "savings_points sr = real_of_int a" "0 \<le> a" "a \<le> 30"
    using savings_points_int by blast
  obtain b :: int where b: "budget_points bu = real_of_int b" "0 \<le> b" "b \<le> 25"
    using budget_points_int by blast
  obtain c :: int where c: "goal_points gs = real_of_int c" "0 \<le> c" "c \<le> 20"
    using goal_points_int by blast
  obtain d :: int where d: "consistency_points me = real_of_int d" "0 \<le> d" "d \<le> 15"
    using consistency_points_int by blast
  obtain e :: int where e: "emergency_points sg = real_of_int e" "0 \<le> e" "e \<le> 10"
    using emergency_points_int by blast
  have "0 \<le> a + b + c + d + e" and "a + b + c + d + e \<le> 100"
    using a(2,3) b(2,3) c(2,3) d(2,3) e(2,3) by linarith+
  moreover have "savings_points sr + budget_points bu + goal_points gs + consistency_points me
       + emergency_points sg = real_of_int (a + b + c + d + e)"
    by (simp add: a(1) b(1) c(1) d(1) e(1))
  ultimately show ?thesis by blast
qed


lemma laptop_goal_30_fields:
  "user laptop_goal_30 = 1" "status laptop_goal_30 = Active"
  "targetAmount laptop_goal_30 = 100" "currentAmount laptop_goal_30 = 30"
  "category laptop_goal_30 = Gadget"
  by (simp_all add: laptop_goal_30_def addContribution_def pre_save_def laptop_goal_def)

lemma example_health:
  "financial_health [laptop_goal_30] 1 (Some 700) (Some 1000) 700 1000 [700]
     = \<lparr>healthScore = 70, healthStatus = ''good'',
        scoreFactors =
          [\<lparr>factor = ''Excellent savings rate'', points = 30, factor_status = ''excellent''\<rparr>,
           \<lparr>factor = ''Excellent budget control'', points = 25, factor_status = ''excellent''\<rparr>,
           \<lparr>factor = ''Good goal progress'', points = 15, factor_status = ''good''\<rparr>,
           \<lparr>factor = ''No emergency fund'', points = 0, factor_status = ''poor''\<rparr>]\<rparr>"
proof -
  have sr: "savingsRate (Some 700) (Some 1000) = 30"
    by (simp add: savingsRate_def)
  have bu: "getBudgetUtilization 700 1000 = 70"
    by (simp add: getBudgetUtilization_def)
  have gs: "getUserGoalStats [laptop_goal_30] 1 Active
              = \<lparr>count = 1, totalTarget = 100, totalCurrent = 30\<rparr>"
    "getUserGoalStats [laptop_goal_30] 1 Completed
              = \<lparr>count = 0, totalTarget = 0, totalCurrent = 0\<rparr>"
    by (simp_all add: getUserGoalStats_eq laptop_goal_30_fields)
  have pr: "totalGoalProgress (getUserGoalStats [laptop_goal_30] 1) = Num 30"
    unfolding totalGoalProgress_def gs by (simp add: js_div_def)
  have f1: "factor_savings 30 (0, [])
      = (30, [\<lparr>factor = ''Excellent savings rate'', points = 30, factor_status = ''excellent''\<rparr>])"
    by (simp add: factor_savings_def award_def)
  have f2: "factor_budget 70 st = award 25 ''Excellent budget control'' ''excellent'' st" for st
    by (simp add: factor_budget_def)
  have f3: "factor_goals (getUserGoalStats [laptop_goal_30] 1) st
      = award 15 ''Good goal progress'' ''good'' st" for st
    unfolding factor_goals_def pr gs Let_def by simp
  have f4: "factor_consistency [700] st = st" for st
    by (simp add: factor_consistency_def)
  have f5: "factor_emergency (filter (\<lambda>g. user g = 1 \<and> status g = Active) [laptop_goal_30]) st
      = remark ''No emergency fund'' ''poor'' st" for st
    by (simp add: factor_emergency_def laptop_goal_30_fields)
  show ?thesis
    unfolding financial_health_def Let_def sr bu f1 f2 f3 f4 f5
    by (simp add: award_def remark_def healthStatus_of_def)
qed

text \<open>
  C6. For every input the financial health score is an integer from 0 to 100, the sum of
  the points of the five factors, each of which depends on its own input only and is
  capped: savings rate at 30, budget adherence at 25, goal progress at 20, expense
  consistency at 15, emergency fund at 10; it is also the sum of the points listed in
  the score factors. With an income of 1000 and expenses of 700, a utilization of 70
  percent, one active goal at 30 percent, one month of expense data and no
  emergency-fund goal, the score is 70 and the status good.
\<close>

theorem health_score_range:
  "0 \<le> healthScore (financial_health goals u te ti ce mb me) \<and>
   healthScore (financial_health goals u te ti ce mb me) \<le> 100 \<and>
   real_of_int (healthScore (financial_health goals u te ti ce mb me))
     = savings_points (savingsRate te ti)
       + budget_points (getBudgetUtilization ce mb)
       + goal_points (getUserGoalStats goals u)
       + consistency_points me
       + emergency_points (filter (\<lambda>g. user g = u \<and> status g = Active) goals) \<and>
   real_of_int (healthScore (financial_health goals u te ti ce mb me))
     = sum_list (map points (scoreFactors (financial_health goals u te ti ce mb me))) \<and>
   savings_points (savingsRate te ti) \<in> {0, 10, 20, 30} \<and>
   budget_points (getBudgetUtilization ce mb) \<in> {0, 5, 15, 25} \<and>
   goal_points (getUserGoalStats goals u) \<in> {0, 10, 15, 20} \<and>
   consistency_points me \<in> {0, 5, 10, 15} \<and>
   emergency_points (filter (\<lambda>g. user g = u \<and> status g = Active) goals) \<in> {0, 5, 10} \<and>
   financial_health [laptop_goal_30] 1 (Some 700) (Some 1000) 700 1000 [700]
     = \<lparr>healthScore = 70, healthStatus = ''good'',
        scoreFactors =
          [\<lparr>factor = ''Excellent savings rate'', points = 30, factor_status = ''excellent''\<rparr>,
           \<lparr>factor = ''Excellent budget control'', points = 25, factor_status = ''excellent''\<rparr>,
           \<lparr>factor = ''Good goal progress'', points = 15, factor_status = ''good''\<rparr>,
           \<lparr>factor = ''No emergency fund'', points = 0, factor_status = ''poor''\<rparr>]\<rparr>"
proof -
  define total where "total = savings_points (savingsRate te ti)
       + budget_points (getBudgetUtilization ce mb)
       + goal_points (getUserGoalStats goals u)
       + consistency_points me
       + emergency_points (filter (\<lambda>g. user g = u \<and> status g = Active) goals)"
  obtain n :: int where n: "total = real_of_int n" "0 \<le> n" "n \<le> 100"
    unfolding total_def using points_total by blast
  have s: "healthScore (financial_health goals u te ti ce mb me) = round total"
    by (simp add: financial_health_def Let_def financial_health_score total_def)
  have f: "sum_list (map points (scoreFactors (financial_health goals u te ti ce mb me))) = total"
    by (simp add: financial_health_def Let_def financial_health_tally financial_health_score
        total_def)
  have r: "healthScore (financial_health goals u te ti ce mb me) = n"
    by (simp add: s n(1))
  have ex: "financial_health [laptop_goal_30] 1 (Some 700) (Some 1000) 700 1000 [700]
     = \<lparr>healthScore = 70, healthStatus = ''good'',
        scoreFactors =
          [\<lparr>factor = ''Excellent savings rate'', points = 30, factor_status = ''excellent''\<rparr>,
           \<lparr>factor = ''Excellent budget control'', points = 25, factor_status = ''excellent''\<rparr>,
           \<lparr>factor = ''Good goal progress'', points = 15, factor_status = ''good''\<rparr>,
           \<lparr>factor = ''No emergency fund'', points = 0, factor_status = ''poor''\<rparr>]\<rparr>"
    by (rule example_health)
  show ?thesis
    using r n f ex savings_points_cases [of "savingsRate te ti"]
      budget_points_cases [of "getBudgetUtilization ce mb"]
      goal_points_cases [of "getUserGoalStats goals u"]
      consistency_points_cases [of me]
      emergency_points_cases [of "filter (\<lambda>g. user g = u \<and> status g = Active) goals"]
    unfolding total_def [symmetric] by (simp only: simp_thms)
qed

end
